theory Spec2Isabelle
  imports Complex_Main
begin

section \<open>Strings and dictionaries of the Python code\<close>

text \<open>
  Addresses, hashes, nonces and timestamps are Python \<open>str\<close> values, modelled as
  \<open>string\<close>. \<open>str.lower()\<close> is modelled on ASCII text: the letters \<open>A\<close> to \<open>Z\<close>
  move to \<open>a\<close> to \<open>z\<close>, every other character stays.
\<close>

definition lower_char :: "char \<Rightarrow> char" where
  "lower_char c =
     (case map_of (zip ''ABCDEFGHIJKLMNOPQRSTUVWXYZ'' ''abcdefghijklmnopqrstuvwxyz'') c of
        None \<Rightarrow> c
      | Some l \<Rightarrow> l)"

definition lower :: "string \<Rightarrow> string" where
  "lower s = map lower_char s"

text \<open>\<open>s.lstrip(" ").rstrip(" ")\<close>: blanks removed at both ends.\<close>

definition lstrip_sp :: "string \<Rightarrow> string" where
  "lstrip_sp s = dropWhile (\<lambda>c. c = CHR '' '') s"

definition rstrip_sp :: "string \<Rightarrow> string" where
  "rstrip_sp s = rev (dropWhile (\<lambda>c. c = CHR '' '') (rev s))"

text \<open>\<open>str(n)\<close> for a non-negative Python int: its decimal digits.\<close>

definition digit_char :: "nat \<Rightarrow> char" where
  "digit_char d = ''0123456789'' ! d"

fun str_nat :: "nat \<Rightarrow> string" where
  "str_nat n = (if n < 10 then [digit_char n] else str_nat (n div 10) @ [digit_char (n mod 10)])"

declare str_nat.simps [simp del]

definition str_int :: "int \<Rightarrow> string" where
  "str_int i = (if i < 0 then CHR ''-'' # str_nat (nat (- i)) else str_nat (nat i))"

text \<open>
  A Python \<open>dict\<close> keeps its keys in insertion order and holds each key once. It is an
  association list; \<open>d[k] = v\<close> replaces the value of a key that is present, in place,
  and appends a new key at the end.
\<close>

fun dict_set :: "'k \<Rightarrow> 'v \<Rightarrow> ('k \<times> 'v) list \<Rightarrow> ('k \<times> 'v) list" where
  "dict_set k v [] = [(k, v)]"
| "dict_set k v (p # ps) = (if fst p = k then (k, v) # ps else p # dict_set k v ps)"

text \<open>The values of a dict in the order a \<open>for key in d: d[key]\<close> loop reads them.\<close>

definition dict_values :: "('k \<times> 'v) list \<Rightarrow> 'v list" where
  "dict_values d = map snd d"

datatype py_error = KeyError | ValueError | IndexError

definition dict_get :: "('k \<times> 'v) list \<Rightarrow> 'k \<Rightarrow> py_error + 'v" where
  "dict_get d k = (case map_of d k of None \<Rightarrow> Inl KeyError | Some v \<Rightarrow> Inr v)"

section \<open>Data model\<close>

text \<open>
  A transaction is the dict built in \<open>add_transaction\<close> (Chain.py) and \<open>reward_tx\<close>
  (miner.py): seven fields, then \<open>txhash\<close>, the SHA3-256 digest of the \<open>str\<close> of the
  seven. Amounts are Python floats; they are modelled as real numbers, so rounding is
  not part of the model.
\<close>

record tx_fields =
  sendr_addr :: string
  recvr_addr :: string
  tx_value :: real
  mining_fee :: real
  final_value :: real
  skscript :: string
  timestamp :: string

record transaction = tx_fields +
  txhash :: string

type_synonym pool = "(string \<times> transaction) list"

text \<open>
  What the code takes from libraries: the digest \<open>sha3_256(...).hexdigest()\<close> and the
  \<open>str\<close> renderings of a transaction dict, of a pool dict and of a float. They are
  parameters of the model; no theorem depends on what they compute.
\<close>

record externals =
  sha3_256 :: "string \<Rightarrow> string"
  str_dict :: "tx_fields \<Rightarrow> string"
  str_pool :: "pool \<Rightarrow> string"
  str_float :: "real \<Rightarrow> string"

definition with_txhash :: "externals \<Rightarrow> tx_fields \<Rightarrow> transaction" where
  "with_txhash E f = tx_fields.extend f (transaction.fields (sha3_256 E (str_dict E f)))"

text \<open>
  \<open>previous_block_hash\<close> is the int \<open>0\<close> for the first block and a hex string for
  every other block.
\<close>

datatype py_val = PyInt int | PyStr string

definition str_val :: "py_val \<Rightarrow> string" where
  "str_val v = (case v of PyInt i \<Rightarrow> str_int i | PyStr s \<Rightarrow> s)"

record block =
  block_index :: nat
  previous_block_hash :: py_val
  mined_block_hash :: string
  nonce :: string
  difficulty :: int
  transactions :: pool
  block_timestamp :: string

text \<open>
  The constructor of \<open>Block\<close>: \<open>timestamp or time_utc()\<close> takes the clock when no
  timestamp, or an empty one, is passed.
\<close>

definition Block :: "nat \<Rightarrow> string \<Rightarrow> py_val \<Rightarrow> string \<Rightarrow> int \<Rightarrow> pool \<Rightarrow> string option \<Rightarrow> string \<Rightarrow> block" where
  "Block idx mined prev nc diff txs ts now =
     \<lparr> block_index = idx, previous_block_hash = prev, mined_block_hash = mined, nonce = nc,
       difficulty = diff, transactions = txs,
       block_timestamp = (case ts of None \<Rightarrow> now | Some t \<Rightarrow> if t = [] then now else t) \<rparr>"

definition block_str :: "externals \<Rightarrow> block \<Rightarrow> string" where
  "block_str E b =
     ''|'' @ str_nat (block_index b) @ ''|'' @ mined_block_hash b @ ''|'' @
     str_pool E (transactions b) @ ''|'' @ str_val (previous_block_hash b) @ ''|'' @
     str_int (difficulty b) @ ''|'' @ block_timestamp b @ ''|''"

definition block_hash :: "externals \<Rightarrow> block \<Rightarrow> string" where
  "block_hash E b = sha3_256 E (block_str E b)"

text \<open>The JSON file written for a block by \<open>create_block\<close>.\<close>

record block_dict =
  bd_block_index :: nat
  bd_previous_block_hash :: py_val
  bd_difficulty :: int
  bd_nonce :: string
  bd_mined_block_hash :: string
  bd_percent_tx_rewarded :: real
  bd_mining_fee :: real
  bd_reward_for_tx :: real
  bd_transactions :: pool
  bd_timestamp :: string

text \<open>
  The state of a \<open>Cryptocurrency\<close> object, with the directory \<open>blocks_path\<close> it writes
  to (file name and content, in the order the files were created).
\<close>

record ledger =
  index :: nat
  chain :: "block list"
  transaction_number :: nat
  TXPOOL :: pool
  l_difficulty :: int
  percentage_of_transactions_rewarded :: real
  mining_fees :: real
  reward_for_transaction :: real
  blocks_path :: "(string \<times> block_dict) list"

section \<open>Chain.py\<close>

subsection \<open>Metaparameters\<close>

definition set_metaparams :: "ledger \<Rightarrow> (real \<times> real) \<times> ledger" where
  "set_metaparams s =
     (let R = transaction_number s;
          Mu = (if R \<le> 10 then 1 else exp ((real R - 10) / 10));
          Tau = 1.5 * Mu
      in ((Mu, Tau), s\<lparr> mining_fees := Mu, reward_for_transaction := Tau \<rparr>))"

subsection \<open>Balance and history of an address\<close>

text \<open>One pass of the loop body of \<open>get_balance_of_addr\<close> over a transaction.\<close>

definition balance_step :: "string \<Rightarrow> transaction \<Rightarrow> bool \<times> real \<Rightarrow> bool \<times> real" where
  "balance_step address tx acc =
     (let acc1 = (if sendr_addr tx = address then (True, snd acc - tx_value tx) else acc)
      in (if recvr_addr tx = address then (True, snd acc1 + final_value tx) else acc1))"

definition get_balance_of_addr :: "ledger \<Rightarrow> string \<Rightarrow> bool \<times> real" where
  "get_balance_of_addr s address0 =
     (let address = lower address0;
          acc = fold (\<lambda>b a. fold (balance_step address) (dict_values (transactions b)) a)
                  (chain s) (False, 0)
      in fold (balance_step address) (dict_values (TXPOOL s)) acc)"





subsection \<open>Adding a transaction\<close>

text \<open>
  \<open>skscript or sendr_addr\<close>: the sender's address stands in when no script, or an
  empty one, is passed. The clock reading is an argument.
\<close>

definition add_transaction ::
  "externals \<Rightarrow> string \<Rightarrow> string \<Rightarrow> real \<Rightarrow> real \<Rightarrow> string \<Rightarrow> string option \<Rightarrow> ledger \<Rightarrow> ledger" where
  "add_transaction E sendr recvr v fee ts script s =
     (let tx = with_txhash E
                 \<lparr> sendr_addr = lower sendr, recvr_addr = lower recvr, tx_value = v,
                   mining_fee = fee, final_value = v - fee,
                   skscript = (case script of None \<Rightarrow> sendr
                                | Some k \<Rightarrow> if k = [] then sendr else k),
                   timestamp = ts \<rparr>
      in s\<lparr> TXPOOL := dict_set (str_nat (transaction_number s)) tx (TXPOOL s),
            transaction_number := transaction_number s + 1 \<rparr>)"

text \<open>The fields of \<open>incoming_tx\<close> that \<open>validate_add_transaction\<close> reads.\<close>

record incoming_tx =
  in_sendr_addr :: string
  in_recvr_addr :: string
  in_value :: real
  in_skscript :: string

definition validate_add_transaction ::
  "externals \<Rightarrow> incoming_tx \<Rightarrow> real \<Rightarrow> string \<Rightarrow> ledger \<Rightarrow> int \<times> ledger" where
  "validate_add_transaction E incoming fees now s =
     (let sendr = lower (in_sendr_addr incoming);
          recvr = lower (in_recvr_addr incoming);
          v = in_value incoming;
          (flag_sender_exists, sendr_wallet_balance) = get_balance_of_addr s sendr
      in if \<not> flag_sender_exists then (- 2, s)
         else if sendr_wallet_balance < v + fees then (- 1, s)
         else (1, add_transaction E sendr recvr v fees now (Some (in_skscript incoming)) s))"

subsection \<open>Creating a block\<close>

text \<open>
  \<open>self.chain[-1]\<close> raises \<open>IndexError\<close> on an empty chain. The block takes the pool
  as it is; the JSON file \<open>index.json\<close> is written, the metaparameters are set, and
  the pool and its counter start again.
\<close>

definition chain_last :: "block list \<Rightarrow> py_error + block" where
  "chain_last bs = (if bs = [] then Inl IndexError else Inr (last bs))"

text \<open>Lines 227 to 230: the hash of the last block, or \<open>0\<close> for the first block.\<close>

definition previous_hash_of :: "externals \<Rightarrow> ledger \<Rightarrow> py_error + py_val" where
  "previous_hash_of E s =
     (if index s \<noteq> 0
      then (case chain_last (chain s) of Inl e \<Rightarrow> Inl e
            | Inr b \<Rightarrow> Inr (PyStr (block_hash E b)))
      else Inr (PyInt 0))"

definition create_block ::
  "externals \<Rightarrow> string \<Rightarrow> string \<Rightarrow> string \<Rightarrow> ledger \<Rightarrow> py_error + block \<times> ledger" where
  "create_block E mined nc now s =
     (case previous_hash_of E s of
        Inl e \<Rightarrow> Inl e
      | Inr previous_hash \<Rightarrow>
          (let blk = Block (index s) mined previous_hash nc (l_difficulty s) (TXPOOL s) None now;
               file_name = str_nat (index s) @ ''.json'';
               bd = \<lparr> bd_block_index = index s, bd_previous_block_hash = previous_hash,
                      bd_difficulty = l_difficulty s, bd_nonce = nc,
                      bd_mined_block_hash = mined,
                      bd_percent_tx_rewarded = percentage_of_transactions_rewarded s,
                      bd_mining_fee = mining_fees s,
                      bd_reward_for_tx = reward_for_transaction s,
                      bd_transactions = TXPOOL s,
                      bd_timestamp = block_timestamp blk \<rparr>;
               s1 = s\<lparr> blocks_path := dict_set file_name bd (blocks_path s) \<rparr>;
               s2 = snd (set_metaparams s1);
               s3 = s2\<lparr> index := index s2 + 1 \<rparr>;
               s4 = s3\<lparr> TXPOOL := [], transaction_number := 0 \<rparr>;
               s5 = s4\<lparr> chain := chain s4 @ [blk] \<rparr>
           in Inr (blk, s5)))"

subsection \<open>Construction and loading\<close>

text \<open>
  \<open>Cryptocurrency()\<close>: an empty ledger over the directory as it is found.
  \<open>Cryptocurrency(create_genesis = True, address, amount)\<close> adds the genesis
  transaction and makes it the first block at once.
\<close>

definition new_ledger :: "(string \<times> block_dict) list \<Rightarrow> ledger" where
  "new_ledger dir =
     \<lparr> index = 0, chain = [], transaction_number = 0, TXPOOL = [], l_difficulty = 2,
       percentage_of_transactions_rewarded = 0.1, mining_fees = 1,
       reward_for_transaction = 1.5, blocks_path = dir \<rparr>"

definition genesis_ledger ::
  "externals \<Rightarrow> (string \<times> block_dict) list \<Rightarrow> string \<Rightarrow> real \<Rightarrow> string \<Rightarrow> string
     \<Rightarrow> py_error + ledger" where
  "genesis_ledger E dir address amount now_tx now_block =
     (case create_block E ''0'' ''0'' now_block
             (add_transaction E ''Genesis'' address amount 0 now_tx None (new_ledger dir)) of
        Inl e \<Rightarrow> Inl e
      | Inr r \<Rightarrow> Inr (snd r))"

text \<open>
  \<open>load_chain\<close> reads the files in the order \<open>rglob("*.json")\<close> lists them; the
  argument is the content of the files in that order.
\<close>

definition block_of_dict :: "block_dict \<Rightarrow> string \<Rightarrow> block" where
  "block_of_dict bd now =
     Block (bd_block_index bd) (bd_mined_block_hash bd) (bd_previous_block_hash bd)
       (bd_nonce bd) (bd_difficulty bd) (bd_transactions bd) (Some (bd_timestamp bd)) now"

definition load_chain :: "block_dict list \<Rightarrow> string \<Rightarrow> ledger \<Rightarrow> ledger" where
  "load_chain block_files now s =
     fold (\<lambda>bd s'. s'\<lparr> chain := chain s' @ [block_of_dict bd now] \<rparr>) block_files
       (s\<lparr> index := length block_files \<rparr>)"

subsection \<open>The challenge given to a miner\<close>

record meta_params =
  mp_index :: nat
  mp_TXPOOL :: pool
  mp_prev_hash :: string
  mp_difficulty :: int
  mp_mining_fees :: real
  mp_num_tx_TXPOOL :: nat
  mp_reward_for_tx :: real
  mp_percent_tx_rewarded :: real

definition get_latest_block_metaparams :: "externals \<Rightarrow> ledger \<Rightarrow> py_error + meta_params" where
  "get_latest_block_metaparams E s =
     (case chain_last (chain s) of
        Inl e \<Rightarrow> Inl e
      | Inr b \<Rightarrow>
          Inr \<lparr> mp_index = index s, mp_TXPOOL = TXPOOL s, mp_prev_hash = block_hash E b,
                mp_difficulty = l_difficulty s, mp_mining_fees = mining_fees s,
                mp_num_tx_TXPOOL = transaction_number s,
                mp_reward_for_tx = reward_for_transaction s,
                mp_percent_tx_rewarded = percentage_of_transactions_rewarded s \<rparr>)"

section \<open>miner.py\<close>

text \<open>
  \<open>sendr_addr or "IceCereum-Rewards"\<close>: the reward account stands in when no sender,
  or an empty one, is passed. The new entry takes the key \<open>str(len(TXPOOL))\<close>.
\<close>

definition reward_tx :: "externals \<Rightarrow> string \<Rightarrow> real \<Rightarrow> pool \<Rightarrow> string option \<Rightarrow> string \<Rightarrow> pool" where
  "reward_tx E recvr reward pl sendr now =
     (let sender = (case sendr of None \<Rightarrow> ''IceCereum-Rewards''
                     | Some a \<Rightarrow> if a = [] then ''IceCereum-Rewards'' else a);
          tx = with_txhash E
                 \<lparr> sendr_addr = sender, recvr_addr = recvr, tx_value = reward,
                   mining_fee = 0, final_value = reward, skscript = sender,
                   timestamp = now \<rparr>
      in dict_set (str_nat (length pl)) tx pl)"

text \<open>
  The outcomes of chance and of the clock are arguments. \<open>coin\<close> is the value of
  \<open>random()\<close>; \<open>draws i\<close> decides the \<open>i\<close>-th call of \<open>randint\<close>, which raises
  \<open>ValueError\<close> on an empty range and otherwise returns a number of the range;
  \<open>times n\<close> is the clock when the entry at position \<open>n\<close> of the pool is made.
\<close>

record chance =
  coin :: real
  draws :: "nat \<Rightarrow> nat"
  times :: "nat \<Rightarrow> string"

definition randint :: "int \<Rightarrow> int \<Rightarrow> nat \<Rightarrow> py_error + int" where
  "randint a b d = (if b < a then Inl ValueError else Inr (a + int d mod (b - a + 1)))"

text \<open>\<open>int(x)\<close> of a float: truncation towards zero.\<close>

definition py_int :: "real \<Rightarrow> int" where
  "py_int x = (if 0 \<le> x then \<lfloor>x\<rfloor> else \<lceil>x\<rceil>)"

text \<open>
  The \<open>while\<close> loop that draws the rewarded transactions. It ends only when enough
  different numbers have been drawn: a run that never ends is the value \<open>None\<close>.
\<close>

partial_function (option) select_rewarded ::
  "int \<Rightarrow> int \<Rightarrow> (nat \<Rightarrow> nat) \<Rightarrow> nat \<Rightarrow> int list \<Rightarrow> (py_error + int list) option" where
  "select_rewarded num_transactions num_tx_rewarded ds i rewarded_tx =
     (if int (length rewarded_tx) \<le> num_tx_rewarded
      then (case randint 0 (num_transactions - 1) (ds i) of
              Inl e \<Rightarrow> Some (Inl e)
            | Inr tx_num \<Rightarrow>
                select_rewarded num_transactions num_tx_rewarded ds (i + 1)
                  (if tx_num \<in> set rewarded_tx then rewarded_tx else rewarded_tx @ [tx_num]))
      else Some (Inr rewarded_tx))"

text \<open>
  The \<open>for\<close> loop that pays the drawn transactions' senders, reading each sender in
  the pool as it stands.
\<close>

fun pay_rewards :: "externals \<Rightarrow> (nat \<Rightarrow> string) \<Rightarrow> real \<Rightarrow> int list \<Rightarrow> pool \<Rightarrow> py_error + pool" where
  "pay_rewards E ts reward [] pl = Inr pl"
| "pay_rewards E ts reward (tx_num # rest) pl =
     (case dict_get pl (str_int tx_num) of
        Inl e \<Rightarrow> Inl e
      | Inr tx \<Rightarrow>
          pay_rewards E ts reward rest
            (reward_tx E (sendr_addr tx) reward pl None (ts (length pl))))"

text \<open>Lines 79 to 132 of \<open>mine\<close>: the rewards, then the payment of the miner.\<close>

definition distribute_rewards ::
  "externals \<Rightarrow> chance \<Rightarrow> meta_params \<Rightarrow> string \<Rightarrow> (py_error + pool) option" where
  "distribute_rewards E ch mine_params miner_addr =
     (let percent_tx_rewarded = mp_percent_tx_rewarded mine_params;
          pl = mp_TXPOOL mine_params;
          reward = mp_reward_for_tx mine_params;
          num_transactions = length pl;
          num_tx_rewarded = percent_tx_rewarded * real num_transactions;
          rewarded =
            (if num_tx_rewarded < 1
             then (if coin ch < percent_tx_rewarded
                   then (case randint 0 (int num_transactions - 1) (draws ch 0) of
                           Inl e \<Rightarrow> Some (Inl e)
                         | Inr tx_num \<Rightarrow> Some (pay_rewards E (times ch) reward [tx_num] pl))
                   else Some (Inr pl))
             else (case select_rewarded (int num_transactions) (py_int num_tx_rewarded)
                          (draws ch) 0 [] of
                     None \<Rightarrow> None
                   | Some (Inl e) \<Rightarrow> Some (Inl e)
                   | Some (Inr rewarded_tx) \<Rightarrow>
                       Some (pay_rewards E (times ch) reward rewarded_tx pl)))
      in (case rewarded of
            None \<Rightarrow> None
          | Some (Inl e) \<Rightarrow> Some (Inl e)
          | Some (Inr pl1) \<Rightarrow>
              Some (Inr (reward_tx E miner_addr
                           (real num_transactions * mp_mining_fees mine_params) pl1
                           (Some ''IceCereum-MiningPayment'') (times ch (length pl1))))))"

text \<open>\<open>hex(n)[2:]\<close>: the hexadecimal digits of a non-negative int, in lower case.\<close>

definition hex_digit :: "nat \<Rightarrow> char" where
  "hex_digit d = ''0123456789abcdef'' ! d"

fun hex :: "nat \<Rightarrow> string" where
  "hex n = (if n < 16 then [hex_digit n] else hex (n div 16) @ [hex_digit (n mod 16)])"

declare hex.simps [simp del]

text \<open>\<open>len(h) - len(h.lstrip('0'))\<close>: the number of leading zero digits.\<close>

definition n_zeroes :: "string \<Rightarrow> nat" where
  "n_zeroes h = length h - length (dropWhile (\<lambda>c. c = CHR ''0'') h)"

definition challenge_str :: "externals \<Rightarrow> meta_params \<Rightarrow> pool \<Rightarrow> string" where
  "challenge_str E mine_params pl =
     str_nat (mp_index mine_params) @ str_pool E pl @ mp_prev_hash mine_params @
     str_int (mp_difficulty mine_params) @ str_float E (mp_mining_fees mine_params) @
     str_float E (mp_reward_for_tx mine_params) @
     str_float E (mp_percent_tx_rewarded mine_params)"

text \<open>
  The \<open>while True\<close> loop of the proof of work, from a given nonce on. A search that
  never ends is the value \<open>None\<close>.
\<close>

partial_function (option) pow_search ::
  "externals \<Rightarrow> string \<Rightarrow> int \<Rightarrow> nat \<Rightarrow> (string \<times> nat) option" where
  "pow_search E block_string diff nonce_int =
     (if int (n_zeroes (sha3_256 E (block_string @ hex nonce_int))) = diff
      then Some (sha3_256 E (block_string @ hex nonce_int), nonce_int)
      else pow_search E block_string diff (nonce_int + 1))"

definition mine ::
  "externals \<Rightarrow> chance \<Rightarrow> meta_params \<Rightarrow> string \<Rightarrow> (py_error + string \<times> string \<times> pool) option" where
  "mine E ch mine_params miner_addr =
     (case distribute_rewards E ch mine_params miner_addr of
        None \<Rightarrow> None
      | Some (Inl e) \<Rightarrow> Some (Inl e)
      | Some (Inr pl) \<Rightarrow>
          (case pow_search E (challenge_str E mine_params pl) (mp_difficulty mine_params) 0 of
             None \<Rightarrow> None
           | Some (hash_string, nonce_int) \<Rightarrow> Some (Inr (hash_string, hex nonce_int, pl))))"

section \<open>chain-API.py\<close>

text \<open>
  The Flask session holds what the GET of \<open>/transfer-funds\<close> stored: the claimed
  sender and the one-time nonce. A key that is absent, or a session that has expired,
  is \<open>None\<close>. The JSON body of the POST has six keys, each of which may be missing.
\<close>

record session =
  s_identifier :: "string option"
  s_one_time_nonce :: "string option"

record request_body =
  rb_sendr_addr :: "string option"
  rb_recvr_addr :: "string option"
  rb_value :: "real option"
  rb_one_time_nonce :: "string option"
  rb_skscript :: "string option"
  rb_skscript_nonce :: "string option"

text \<open>
  \<open>Account.recover_message\<close> either raises \<open>ValidationError\<close> (a signature of
  unexpected length) or returns the address that signed the message;
  \<open>Web3().isAddress\<close> tells whether a string is an address. Both are parameters.
\<close>

datatype recover_result = ValidationError | Recovered string

record api_externals =
  isAddress :: "string \<Rightarrow> bool"
  recover_message :: "string \<Rightarrow> string \<Rightarrow> recover_result"

datatype api_response =
    error_desc nat
  | challenge_issued real string
  | transaction_added
  | block_created
  | error_creating_block

definition transfer_funds_GET ::
  "externals \<Rightarrow> string option \<Rightarrow> string \<Rightarrow> session \<Rightarrow> ledger
     \<Rightarrow> py_error + api_response \<times> session" where
  "transfer_funds_GET E sendr uuid sess s =
     (case sendr of
        None \<Rightarrow> Inr (error_desc 1, sess)
      | Some a \<Rightarrow>
          (case get_latest_block_metaparams E s of
             Inl e \<Rightarrow> Inl e
           | Inr mp \<Rightarrow>
               Inr (challenge_issued (mp_mining_fees mp) uuid,
                    sess\<lparr> s_identifier := Some a, s_one_time_nonce := Some uuid \<rparr>)))"

definition message_to_sign :: "externals \<Rightarrow> string \<Rightarrow> string \<Rightarrow> real \<Rightarrow> string \<Rightarrow> string" where
  "message_to_sign E sendr recvr v nonce_text = sendr @ recvr @ str_float E v @ nonce_text"

text \<open>
  The block between \<open>BEGIN SKSCRIPT AUTH\<close> and the call of
  \<open>validate_add_transaction\<close>: \<open>None\<close> when the sender is authenticated, the number
  of the error otherwise.
\<close>

definition skscript_auth ::
  "externals \<Rightarrow> api_externals \<Rightarrow> string \<Rightarrow> string \<Rightarrow> string \<Rightarrow> real \<Rightarrow> string \<Rightarrow> nat option" where
  "skscript_auth E X nonce_text sendr recvr v signature =
     (case recover_message X (message_to_sign E sendr recvr v nonce_text) signature of
        ValidationError \<Rightarrow> Some 4
      | Recovered acct \<Rightarrow>
          (let validate_acct = lower (rstrip_sp (lstrip_sp acct))
           in if sendr \<noteq> validate_acct then Some 5 else None))"

definition missing_keys :: "request_body \<Rightarrow> string list" where
  "missing_keys rb =
     (if rb_sendr_addr rb = None then [''sendr_addr''] else []) @
     (if rb_recvr_addr rb = None then [''recvr_addr''] else []) @
     (if rb_value rb = None then [''value''] else []) @
     (if rb_one_time_nonce rb = None then [''one_time_nonce''] else []) @
     (if rb_skscript rb = None then [''skscript''] else []) @
     (if rb_skscript_nonce rb = None then [''skscript_nonce''] else [])"

text \<open>
  The POST of \<open>/transfer-funds\<close>. The handler reads the session and never writes it:
  the session is returned as it came.
\<close>

definition transfer_funds_POST ::
  "externals \<Rightarrow> api_externals \<Rightarrow> session \<Rightarrow> request_body \<Rightarrow> string \<Rightarrow> ledger
     \<Rightarrow> py_error + api_response \<times> session \<times> ledger" where
  "transfer_funds_POST E X sess rb now s =
     (case get_latest_block_metaparams E s of
        Inl e \<Rightarrow> Inl e
      | Inr mp \<Rightarrow>
          (if s_identifier sess = None then Inr (error_desc 2, sess, s)
           else case s_one_time_nonce sess of
             None \<Rightarrow> Inr (error_desc 2, sess, s)
           | Some nonce_text \<Rightarrow>
               (case (rb_sendr_addr rb, rb_recvr_addr rb, rb_value rb, rb_one_time_nonce rb,
                      rb_skscript rb, rb_skscript_nonce rb) of
                  (Some sendr, Some recvr, Some v, Some _, Some script, Some signature) \<Rightarrow>
                    (if \<not> isAddress X sendr then Inr (error_desc 8, sess, s)
                     else if \<not> isAddress X recvr then Inr (error_desc 9, sess, s)
                     else case skscript_auth E X nonce_text sendr recvr v signature of
                       Some n \<Rightarrow> Inr (error_desc n, sess, s)
                     | None \<Rightarrow>
                         (case validate_add_transaction E
                                 \<lparr> in_sendr_addr = sendr, in_recvr_addr = recvr,
                                   in_value = v, in_skscript = script \<rparr>
                                 (mp_mining_fees mp) now s of
                            (transaction_added_code, s') \<Rightarrow>
                              if transaction_added_code = - 1 then Inr (error_desc 6, sess, s')
                              else if transaction_added_code = - 2
                              then Inr (error_desc 7, sess, s')
                              else Inr (transaction_added, sess, s')))
                | _ \<Rightarrow> Inr (error_desc 3, sess, s))))"

text \<open>
  \<open>/mine-block\<close>: the miner (the node at port 4501, which runs \<open>mine\<close> with its own
  address) answers the challenge, the ledger takes the pool of the answer as its own
  by assignment to \<open>Crypto.TXPOOL\<close>, and the block is created. An exception in
  \<open>create_block\<close> is caught and reported.
\<close>

definition MINING_ADDRESS :: string where
  "MINING_ADDRESS = ''0x0acc12cb5c4d8eb3d3bc6540176af2318031ad92''"

definition mine_block ::
  "externals \<Rightarrow> chance \<Rightarrow> string \<Rightarrow> ledger \<Rightarrow> (py_error + api_response \<times> ledger) option" where
  "mine_block E ch now s =
     (case get_latest_block_metaparams E s of
        Inl e \<Rightarrow> Some (Inl e)
      | Inr POST_data \<Rightarrow>
          (case mine E ch POST_data MINING_ADDRESS of
             None \<Rightarrow> None
           | Some (Inl e) \<Rightarrow> Some (Inl e)
           | Some (Inr (hash_string, nonce_text, txs)) \<Rightarrow>
               (let s1 = s\<lparr> TXPOOL := txs \<rparr>
                in case create_block E hash_string nonce_text now s1 of
                     Inl e \<Rightarrow> Some (Inr (error_creating_block, s1))
                   | Inr r \<Rightarrow> Some (Inr (block_created, snd r)))))"

section \<open>Notions of the specification\<close>

text \<open>
  The history of a ledger: the transactions of the committed blocks, in block order,
  and then those of the live pool.
\<close>

definition all_transactions :: "ledger \<Rightarrow> transaction list" where
  "all_transactions s =
     concat (map (\<lambda>b. dict_values (transactions b)) (chain s)) @ dict_values (TXPOOL s)"

text \<open>An address appears in the history as the sender or the receiver of a transaction.\<close>

definition appears :: "ledger \<Rightarrow> string \<Rightarrow> bool" where
  "appears s a = list_ex (\<lambda>tx. sendr_addr tx = a \<or> recvr_addr tx = a) (all_transactions s)"

text \<open>
  The sum of \<open>final_value\<close> over the transactions received, minus the sum of \<open>value\<close>
  over the transactions sent.
\<close>

definition received_minus_sent :: "ledger \<Rightarrow> string \<Rightarrow> real" where
  "received_minus_sent s a =
     sum_list (map final_value (filter (\<lambda>tx. recvr_addr tx = a) (all_transactions s)))
     - sum_list (map tx_value (filter (\<lambda>tx. sendr_addr tx = a) (all_transactions s)))"


text \<open>
  Ledgers made by the whole program: construction with or without genesis, admissions,
  and seals, either by \<open>create_block\<close> itself or through \<open>/mine-block\<close>, which first
  replaces the pool by the miner's.
\<close>

inductive built :: "externals \<Rightarrow> ledger \<Rightarrow> bool" for E :: externals where
  empty: "built E (new_ledger dir)"
| genesis: "genesis_ledger E dir address amount now_tx now_block = Inr s \<Longrightarrow> built E s"
| add: "built E s \<Longrightarrow> built E (add_transaction E sendr recvr v fee ts script s)"
| admit: "built E s \<Longrightarrow> built E (snd (validate_add_transaction E incoming fees now s))"
| seal: "built E s \<Longrightarrow> create_block E mined nc now s = Inr r \<Longrightarrow> built E (snd r)"
| mined: "built E s \<Longrightarrow> mine_block E ch now s = Some (Inr r) \<Longrightarrow> built E (snd r)"

text \<open>
  The linkage of a chain: every block carries its position as its index, the first
  block carries the int \<open>0\<close> as its previous hash, and every later block the
  recomputed hash of the block before it.
\<close>

definition linked :: "externals \<Rightarrow> block list \<Rightarrow> bool" where
  "linked E bs =
     list_all (\<lambda>i. block_index (bs ! i) = i
                 \<and> previous_block_hash (bs ! i) =
                     (if i = 0 then PyInt 0 else PyStr (block_hash E (bs ! (i - 1)))))
       [0..<length bs]"

text \<open>The invariant of the ledger that carries the linkage from seal to seal.\<close>

definition chain_inv :: "externals \<Rightarrow> ledger \<Rightarrow> bool" where
  "chain_inv E s \<longleftrightarrow> index s = length (chain s) \<and> linked E (chain s)"

text \<open>
  A nonce is accepted when the digest of the challenge string followed by the nonce in
  hexadecimal has exactly \<open>difficulty\<close> leading zeros.
\<close>

definition accepts :: "externals \<Rightarrow> string \<Rightarrow> int \<Rightarrow> nat \<Rightarrow> bool" where
  "accepts E block_string diff n \<longleftrightarrow>
     int (n_zeroes (sha3_256 E (block_string @ hex n))) = diff"

section \<open>Worked examples: the inputs\<close>

text \<open>
  An instance of the library functions, for the examples only: a digest whose number of
  leading zeros is read off the length and the last character of its input, and short
  renderings.
\<close>

definition example_digest :: "string \<Rightarrow> string" where
  "example_digest s =
     take ((length s + (if s = [] then 0 else of_char (last s))) mod 4) ''000'' @ ''f00d''"

definition example_externals :: externals where
  "example_externals =
     \<lparr> sha3_256 = example_digest,
       str_dict = (\<lambda>f. sendr_addr f @ recvr_addr f @ timestamp f),
       str_pool = (\<lambda>pl. concat (map fst pl)),
       str_float = (\<lambda>x. str_int \<lfloor>x\<rfloor>) \<rparr>"

text \<open>A ledger whose genesis mints 1000 to the address \<open>0xAB\<close>.\<close>

definition example_genesis :: ledger where
  "example_genesis =
     (case genesis_ledger example_externals [] ''0xAB'' 1000 ''t0'' ''t1'' of
        Inr s \<Rightarrow> s | Inl e \<Rightarrow> new_ledger [])"

text \<open>
  The outcomes of chance of the examples: no reward on the toss of the coin, and the
  draws \<open>0, 1, 2, ...\<close>.
\<close>

definition example_chance :: chance where
  "example_chance = \<lparr> coin = 0.5, draws = (\<lambda>i. i), times = (\<lambda>n. ''t3'') \<rparr>"

text \<open>The example ledger after \<open>/mine-block\<close>.\<close>

definition example_mined :: ledger where
  "example_mined =
     (case mine_block example_externals example_chance ''t4'' example_genesis of
        Some (Inr r) \<Rightarrow> snd r | _ \<Rightarrow> example_genesis)"

text \<open>
  The challenge that the example ledger gives to the miner, and the payment that the
  miner adds for itself to the empty pool.
\<close>

definition example_params :: meta_params where
  "example_params =
     \<lparr> mp_index = 1, mp_TXPOOL = [], mp_prev_hash = ''00f00d'', mp_difficulty = 2,
       mp_mining_fees = 1, mp_num_tx_TXPOOL = 0, mp_reward_for_tx = 3 / 2,
       mp_percent_tx_rewarded = 1 / 10 \<rparr>"

definition example_payment :: transaction where
  "example_payment =
     with_txhash example_externals
       \<lparr> sendr_addr = ''IceCereum-MiningPayment'', recvr_addr = MINING_ADDRESS, tx_value = 0,
         mining_fee = 0, final_value = 0, skscript = ''IceCereum-MiningPayment'',
         timestamp = ''t3'' \<rparr>"




definition example_api :: api_externals where
  "example_api =
     \<lparr> isAddress = (\<lambda>a. take 2 a = ''0x''),
       recover_message = (\<lambda>msg signature.
         if length signature \<noteq> 6 then ValidationError else Recovered (take 4 signature)) \<rparr>"

definition example_session :: session where
  "example_session = \<lparr> s_identifier = Some ''0xab'', s_one_time_nonce = Some ''5f2a'' \<rparr>"

definition example_body :: request_body where
  "example_body =
     \<lparr> rb_sendr_addr = Some ''0xab'', rb_recvr_addr = Some ''0xcd'', rb_value = Some 100,
       rb_one_time_nonce = Some ''5f2a'', rb_skscript = Some ''sig'',
       rb_skscript_nonce = Some ''0xABzz'' \<rparr>"

definition example_incoming :: incoming_tx where
  "example_incoming =
     \<lparr> in_sendr_addr = ''0xab'', in_recvr_addr = ''0xcd'', in_value = 100,
       in_skscript = ''sig'' \<rparr>"

text \<open>The example ledger after the request was admitted once, and twice.\<close>

definition example_first_post :: ledger where
  "example_first_post =
     snd (validate_add_transaction example_externals example_incoming 1 ''t2'' example_genesis)"

definition example_second_post :: ledger where
  "example_second_post =
     snd (validate_add_transaction example_externals example_incoming 1 ''t3'' example_first_post)"

section \<open>The entries that the miner appends\<close>

text \<open>The number that a string of decimal digits writes.\<close>

definition nat_of_str :: "string \<Rightarrow> nat" where
  "nat_of_str s = foldl (\<lambda>a c. 10 * a + (of_char c - 48)) 0 s"

text \<open>A pool keyed as the ledger keys it: \<open>"0"\<close>, \<open>"1"\<close>, ... in this order.\<close>

definition well_keyed :: "pool \<Rightarrow> bool" where
  "well_keyed pl \<longleftrightarrow> map fst pl = map str_nat [0..<length pl]"

text \<open>
  The entries that the specification has the miner append. A reward sits at position
  \<open>pos\<close> of the pool and pays \<open>reward\<close>, without fee, from the reward account to
  the sender of the transaction \<open>t\<close> of the snapshot; the rewards of a list of chosen
  transactions take successive positions. The payment pays the miner an amount, without
  fee, from the mining-payment account.
\<close>

definition reward_entry ::
  "externals \<Rightarrow> (nat \<Rightarrow> string) \<Rightarrow> real \<Rightarrow> pool \<Rightarrow> nat \<Rightarrow> nat \<Rightarrow> string \<times> transaction" where
  "reward_entry E ts reward pl pos t =
     (str_nat pos,
      with_txhash E
        \<lparr> sendr_addr = ''IceCereum-Rewards'', recvr_addr = sendr_addr (snd (pl ! t)),
          tx_value = reward, mining_fee = 0, final_value = reward,
          skscript = ''IceCereum-Rewards'', timestamp = ts pos \<rparr>)"

fun reward_entries ::
  "externals \<Rightarrow> (nat \<Rightarrow> string) \<Rightarrow> real \<Rightarrow> pool \<Rightarrow> nat \<Rightarrow> nat list \<Rightarrow> pool" where
  "reward_entries E ts reward pl pos [] = []"
| "reward_entries E ts reward pl pos (t # rest) =
     reward_entry E ts reward pl pos t # reward_entries E ts reward pl (Suc pos) rest"

definition payment_entry ::
  "externals \<Rightarrow> (nat \<Rightarrow> string) \<Rightarrow> string \<Rightarrow> real \<Rightarrow> nat \<Rightarrow> string \<times> transaction" where
  "payment_entry E ts miner_addr amount pos =
     (str_nat pos,
      with_txhash E
        \<lparr> sendr_addr = ''IceCereum-MiningPayment'', recvr_addr = miner_addr,
          tx_value = amount, mining_fee = 0, final_value = amount,
          skscript = ''IceCereum-MiningPayment'', timestamp = ts pos \<rparr>)"

section \<open>Worked examples: ten admissions\<close>

text \<open>
  The example ledger after ten admissions of one coin each from \<open>0xab\<close>, the
  challenge it gives to the miner, and the ledger after \<open>/mine-block\<close>.
\<close>

definition small_incoming :: incoming_tx where
  "small_incoming =
     \<lparr> in_sendr_addr = ''0xab'', in_recvr_addr = ''0xcd'', in_value = 1,
       in_skscript = ''sig'' \<rparr>"

definition example_ten :: ledger where
  "example_ten =
     fold (\<lambda>ts s. snd (validate_add_transaction example_externals small_incoming 1 ts s))
       [''a0'', ''a1'', ''a2'', ''a3'', ''a4'', ''a5'', ''a6'', ''a7'', ''a8'', ''a9'']
       example_genesis"

definition ten_params :: meta_params where
  "ten_params =
     \<lparr> mp_index = 1, mp_TXPOOL = TXPOOL example_ten, mp_prev_hash = ''00f00d'',
       mp_difficulty = 2, mp_mining_fees = 1, mp_num_tx_TXPOOL = 10,
       mp_reward_for_tx = 3 / 2, mp_percent_tx_rewarded = 1 / 10 \<rparr>"

definition example_ten_mined :: ledger where
  "example_ten_mined =
     (case mine_block example_externals example_chance ''t4'' example_ten of
        Some (Inr r) \<Rightarrow> snd r | _ \<Rightarrow> example_ten)"


text \<open>What the ten admissions keep of the example ledger, after \<open>n\<close> of them.\<close>

definition admitted_inv :: "nat \<Rightarrow> ledger \<Rightarrow> bool" where
  "admitted_inv n s \<longleftrightarrow>
     chain s = chain example_genesis \<and> index s = 1 \<and> l_difficulty s = 2
     \<and> percentage_of_transactions_rewarded s = 1 / 10 \<and> mining_fees s = 1
     \<and> reward_for_transaction s = 3 / 2 \<and> transaction_number s = n
     \<and> length (TXPOOL s) = n \<and> well_keyed (TXPOOL s)
     \<and> get_balance_of_addr s ''0xab'' = (True, 1000 - real n)"

section \<open>Properties\<close>

subsection \<open>Lower case\<close>





subsection \<open>The balance scan\<close>

lemma fold_balance_step:
  "fold (balance_step a) txs acc =
     (fst acc \<or> list_ex (\<lambda>tx. sendr_addr tx = a \<or> recvr_addr tx = a) txs,
      snd acc + sum_list (map final_value (filter (\<lambda>tx. recvr_addr tx = a) txs))
              - sum_list (map tx_value (filter (\<lambda>tx. sendr_addr tx = a) txs)))"
proof (induction txs arbitrary: acc)
  case Nil
  show ?case by simp
next
  case (Cons tx txs)
  show ?case
    by (simp add: Cons.IH) (auto simp: balance_step_def Let_def)
qed

lemma fold_nested:
  "fold (\<lambda>b acc. fold g (f b) acc) bs acc0 = fold g (concat (map f bs)) acc0"
  by (induction bs arbitrary: acc0) simp_all

lemma get_balance_of_addr_eq:
  "get_balance_of_addr s a = (appears s (lower a), received_minus_sent s (lower a))"
  unfolding get_balance_of_addr_def Let_def fold_nested
  by (simp add: fold_append [symmetric, unfolded comp_def] fold_balance_step appears_def
      received_minus_sent_def all_transactions_def del: fold_append)

subsection \<open>The example ledger\<close>

lemmas example_genesis_unfold =
  example_genesis_def genesis_ledger_def create_block_def previous_hash_of_def Let_def
  add_transaction_def
  new_ledger_def set_metaparams_def Block_def with_txhash_def tx_fields.defs transaction.defs
  lower_def lower_char_def dict_values_def

lemma example_genesis_ok:
  "genesis_ledger example_externals [] ''0xAB'' 1000 ''t0'' ''t1'' = Inr example_genesis"
  by (simp add: example_genesis_def genesis_ledger_def create_block_def Let_def
      add_transaction_def new_ledger_def previous_hash_of_def)


lemma example_genesis_balance_lower: "get_balance_of_addr example_genesis ''0xab'' = (True, 1000)"
  by (simp add: example_genesis_unfold get_balance_of_addr_def balance_step_def)


subsection \<open>The balance of an address\<close>




subsection \<open>Validation before admission\<close>

lemma example_genesis_history:
  "\<not> appears example_genesis ''0xAB''"
  "appears example_genesis ''0xab''"
  "received_minus_sent example_genesis ''0xab'' = 1000"
  "\<not> appears example_genesis ''0xcd''"
  by (simp_all add: example_genesis_unfold appears_def received_minus_sent_def
      all_transactions_def)




subsection \<open>The linkage of the chain\<close>

lemma linked_iff:
  "linked E bs \<longleftrightarrow>
     (\<forall>i<length bs. block_index (bs ! i) = i
        \<and> previous_block_hash (bs ! i) =
            (if i = 0 then PyInt 0 else PyStr (block_hash E (bs ! (i - 1)))))"
  by (auto simp: linked_def list_all_iff)

lemma linked_snoc:
  assumes "linked E bs"
    and "block_index b = length bs"
    and "previous_block_hash b = (if bs = [] then PyInt 0 else PyStr (block_hash E (last bs)))"
  shows "linked E (bs @ [b])"
  unfolding linked_iff
proof (intro allI impI)
  fix i assume i: "i < length (bs @ [b])"
  show "block_index ((bs @ [b]) ! i) = i
        \<and> previous_block_hash ((bs @ [b]) ! i) =
            (if i = 0 then PyInt 0 else PyStr (block_hash E ((bs @ [b]) ! (i - 1))))"
  proof (cases "i < length bs")
    case True
    with assms(1) show ?thesis
      by (auto simp: linked_iff nth_append)
  next
    case False
    with i have "i = length bs" by simp
    with assms(2,3) show ?thesis
      by (auto simp: nth_append last_conv_nth)
  qed
qed

lemma chain_inv_new: "chain_inv E (new_ledger dir)"
  by (simp add: chain_inv_def new_ledger_def linked_def)

lemma chain_inv_add:
  "chain_inv E s \<Longrightarrow> chain_inv E (add_transaction E sendr recvr v fee ts script s)"
  by (simp add: chain_inv_def add_transaction_def Let_def)

lemma chain_inv_validate:
  "chain_inv E s \<Longrightarrow> chain_inv E (snd (validate_add_transaction E incoming fees now s))"
  by (simp add: validate_add_transaction_def Let_def split_beta chain_inv_add)

lemma chain_inv_pool: "chain_inv E s \<Longrightarrow> chain_inv E (s\<lparr> TXPOOL := pl \<rparr>)"
  by (simp add: chain_inv_def)

lemma create_block_Inr:
  assumes "create_block E mined nc now s = Inr r"
  obtains ph where "previous_hash_of E s = Inr ph"
    and "fst r = Block (index s) mined ph nc (l_difficulty s) (TXPOOL s) None now"
    and "chain (snd r) = chain s @ [fst r]"
    and "index (snd r) = Suc (index s)"
    and "TXPOOL (snd r) = []"
    and "transaction_number (snd r) = 0"
    and "mining_fees (snd r) = fst (fst (set_metaparams s))"
    and "reward_for_transaction (snd r) = snd (fst (set_metaparams s))"
proof (cases "previous_hash_of E s")
  case (Inl e)
  with assms show ?thesis by (simp add: create_block_def)
next
  case (Inr ph)
  with assms have "r = (Block (index s) mined ph nc (l_difficulty s) (TXPOOL s) None now,
      snd r)" and "chain (snd r) = chain s @ [fst r]" and "index (snd r) = Suc (index s)"
      and "TXPOOL (snd r) = []" and "transaction_number (snd r) = 0"
      and "mining_fees (snd r) = fst (fst (set_metaparams s))"
      and "reward_for_transaction (snd r) = snd (fst (set_metaparams s))"
    by (auto simp: create_block_def Let_def set_metaparams_def)
  with that Inr show ?thesis by (metis fst_conv)
qed

lemma create_block_chain:
  assumes "create_block E mined nc now s = Inr r" and "index s = length (chain s)"
  shows "index (snd r) = Suc (index s)"
    and "chain (snd r) = chain s @ [fst r]"
    and "block_index (fst r) = length (chain s)"
    and "previous_block_hash (fst r) =
           (if chain s = [] then PyInt 0 else PyStr (block_hash E (last (chain s))))"
    and "transactions (fst r) = TXPOOL s"
proof -
  from assms(1) obtain ph where ph: "previous_hash_of E s = Inr ph"
    and b: "fst r = Block (index s) mined ph nc (l_difficulty s) (TXPOOL s) None now"
    and c: "chain (snd r) = chain s @ [fst r]" and i: "index (snd r) = Suc (index s)"
    by (rule create_block_Inr)
  from ph assms(2) have "ph = (if chain s = [] then PyInt 0 else PyStr (block_hash E (last (chain s))))"
    by (auto simp: previous_hash_of_def chain_last_def split: if_splits)
  with b c i assms(2) show "index (snd r) = Suc (index s)"
    and "chain (snd r) = chain s @ [fst r]"
    and "block_index (fst r) = length (chain s)"
    and "previous_block_hash (fst r) =
           (if chain s = [] then PyInt 0 else PyStr (block_hash E (last (chain s))))"
    and "transactions (fst r) = TXPOOL s"
    by (simp_all add: Block_def)
qed

lemma chain_inv_create_block:
  assumes "chain_inv E s" and "create_block E mined nc now s = Inr r"
  shows "chain_inv E (snd r)"
proof -
  from assms(1) have i: "index s = length (chain s)" and l: "linked E (chain s)"
    by (simp_all add: chain_inv_def)
  note c = create_block_chain [OF assms(2) i]
  from linked_snoc [OF l c(3) c(4)] c(1,2) i show ?thesis
    by (simp add: chain_inv_def)
qed

lemma chain_inv_genesis:
  assumes "genesis_ledger E dir address amount now_tx now_block = Inr s"
  shows "chain_inv E s"
proof -
  let ?s0 = "add_transaction E ''Genesis'' address amount 0 now_tx None (new_ledger dir)"
  from assms obtain r where r: "create_block E ''0'' ''0'' now_block ?s0 = Inr r" and s: "s = snd r"
    by (auto simp: genesis_ledger_def split: sum.splits)
  have "chain_inv E ?s0" by (rule chain_inv_add [OF chain_inv_new])
  from chain_inv_create_block [OF this r] s show ?thesis by simp
qed

lemma mine_block_cases:
  assumes "mine_block E ch now s = Some (Inr r)"
  obtains mp h n txs r' where "get_latest_block_metaparams E s = Inr mp"
      and "mine E ch mp MINING_ADDRESS = Some (Inr (h, n, txs))"
      and "create_block E h n now (s\<lparr> TXPOOL := txs \<rparr>) = Inr r'"
      and "r = (block_created, snd r')"
  | mp h n txs e where "get_latest_block_metaparams E s = Inr mp"
      and "mine E ch mp MINING_ADDRESS = Some (Inr (h, n, txs))"
      and "create_block E h n now (s\<lparr> TXPOOL := txs \<rparr>) = Inl e"
      and "r = (error_creating_block, s\<lparr> TXPOOL := txs \<rparr>)"
proof (cases "get_latest_block_metaparams E s")
  case (Inl e)
  with assms show ?thesis by (simp add: mine_block_def)
next
  case (Inr mp)
  show ?thesis
  proof (cases "mine E ch mp MINING_ADDRESS")
    case None
    with Inr assms show ?thesis by (simp add: mine_block_def)
  next
    case (Some m)
    show ?thesis
    proof (cases m)
      case (Inl e)
      with Some Inr assms show ?thesis by (simp add: mine_block_def)
    next
      case m: (Inr t)
      obtain h n txs where t: "t = (h, n, txs)" by (cases t) auto
      show ?thesis
      proof (cases "create_block E h n now (s\<lparr> TXPOOL := txs \<rparr>)")
        case (Inl e)
        with t m Some Inr assms have "r = (error_creating_block, s\<lparr> TXPOOL := txs \<rparr>)"
          by (simp add: mine_block_def Let_def)
        with that(2) Inr Some m t Inl show ?thesis by blast
      next
        case c: (Inr r')
        with t m Some Inr assms have "r = (block_created, snd r')"
          by (simp add: mine_block_def Let_def)
        with that(1) Inr Some m t c show ?thesis by blast
      qed
    qed
  qed
qed

lemma chain_inv_mine_block:
  assumes "chain_inv E s" and "mine_block E ch now s = Some (Inr r)"
  shows "chain_inv E (snd r)"
  using assms(2)
proof (cases rule: mine_block_cases)
  case (1 mp h n txs r')
  with chain_inv_create_block [OF chain_inv_pool [OF assms(1)]] show ?thesis by simp
next
  case (2 mp h n txs e)
  with chain_inv_pool [OF assms(1)] show ?thesis by simp
qed

lemma built_chain_inv: "built E s \<Longrightarrow> chain_inv E s"
proof (induction rule: built.induct)
  case (empty dir)
  show ?case by (rule chain_inv_new)
next
  case (genesis dir address amount now_tx now_block s)
  then show ?case by (rule chain_inv_genesis)
next
  case (add s sendr recvr v fee ts script)
  then show ?case by (simp add: chain_inv_add)
next
  case (admit s incoming fees now)
  then show ?case by (simp add: chain_inv_validate)
next
  case (seal s mined nc now r)
  then show ?case by (simp add: chain_inv_create_block)
next
  case (mined s ch now r)
  then show ?case by (simp add: chain_inv_mine_block)
qed

text \<open>
  Claim C1: in every ledger built by construction (with or without genesis) followed by
  any sequence of admissions and seals, the block at each position \<open>i\<close> of the chain
  has \<open>block_index\<close> \<open>i\<close>; the first block has the int \<open>0\<close> as its
  \<open>previous_block_hash\<close>, and every later block has the recomputed \<open>block_hash\<close> of
  the block before it.
\<close>

theorem chain_linkage:
  assumes "built E s" and "i < length (chain s)"
  shows "block_index (chain s ! i) = i
    \<and> (i = 0 \<longrightarrow> previous_block_hash (chain s ! i) = PyInt 0)
    \<and> (0 < i \<longrightarrow> previous_block_hash (chain s ! i) = PyStr (block_hash E (chain s ! (i - 1))))"
  using built_chain_inv [OF assms(1)] assms(2)
  by (auto simp: chain_inv_def linked_iff)

subsection \<open>The proof of work\<close>

lemma pow_search_hit:
  "accepts E bs d n \<Longrightarrow> pow_search E bs d n = Some (sha3_256 E (bs @ hex n), n)"
  by (subst pow_search.simps) (simp add: accepts_def)

lemma pow_search_miss:
  "\<not> accepts E bs d n \<Longrightarrow> pow_search E bs d n = pow_search E bs d (Suc n)"
  by (subst pow_search.simps) (simp add: accepts_def)

lemma pow_search_skip:
  "(\<forall>k<j. \<not> accepts E bs d (n + k)) \<Longrightarrow> pow_search E bs d n = pow_search E bs d (n + j)"
proof (induction j arbitrary: n)
  case 0
  show ?case by simp
next
  case (Suc j)
  from Suc.prems have "\<not> accepts E bs d n" by (metis add.right_neutral zero_less_Suc)
  then have "pow_search E bs d n = pow_search E bs d (Suc n)" by (rule pow_search_miss)
  moreover have "\<forall>k<j. \<not> accepts E bs d (Suc n + k)"
    using Suc.prems by (metis Suc_less_eq add_Suc_shift)
  then have "pow_search E bs d (Suc n) = pow_search E bs d (Suc n + j)" by (rule Suc.IH)
  ultimately show ?case by simp
qed

lemma pow_search_first:
  assumes "accepts E bs d n" and "\<forall>k<n. \<not> accepts E bs d k"
  shows "pow_search E bs d 0 = Some (sha3_256 E (bs @ hex n), n)"
  using pow_search_skip [of n E bs d 0] assms pow_search_hit [of E bs d n] by simp

lemma pow_search_Some_accepts:
  assumes "pow_search E bs d n = Some y"
  shows "accepts E bs d (snd y)"
proof (rule pow_search.raw_induct [where P = "\<lambda>E bs d n y. accepts E bs d (snd y)", OF _ assms])
  fix f E bs d n y
  assume IH: "\<And>E bs d n y. f E bs d n = Some y \<Longrightarrow> accepts E bs d (snd y)"
    and body: "(if int (n_zeroes (sha3_256 E (bs @ hex n))) = d
                then Some (sha3_256 E (bs @ hex n), n)
                else f E bs d (n + 1)) = Some y"
  show "accepts E bs d (snd y)"
  proof (cases "int (n_zeroes (sha3_256 E (bs @ hex n))) = d")
    case True
    with body show ?thesis by (auto simp: accepts_def)
  next
    case False
    with body have "f E bs d (n + 1) = Some y" by simp
    then show ?thesis by (rule IH)
  qed
qed

lemma pow_search_never:
  assumes "\<forall>k. \<not> accepts E bs d k"
  shows "pow_search E bs d n = None"
proof (cases "pow_search E bs d n")
  case None
  then show ?thesis .
next
  case (Some y)
  from pow_search_Some_accepts [OF this] assms show ?thesis by simp
qed

text \<open>
  Claim C7: once the rewards are distributed, \<open>mine\<close> tries the nonces 0, 1, 2, ... in
  this order and returns the first nonce whose digest (of the challenge string followed
  by the nonce in hexadecimal) has exactly \<open>difficulty\<close> leading zeros, every nonce
  before it having been skipped for a different count; its result is that digest, the
  nonce as a hexadecimal string without prefix, and the augmented pool. When no nonce is
  accepted the search never returns.
\<close>

theorem proof_of_work_first_exact:
  assumes "distribute_rewards E ch mine_params miner_addr = Some (Inr pl)"
  shows "(accepts E (challenge_str E mine_params pl) (mp_difficulty mine_params) n
          \<and> (\<forall>k<n. \<not> accepts E (challenge_str E mine_params pl) (mp_difficulty mine_params) k)
          \<longrightarrow> mine E ch mine_params miner_addr =
                Some (Inr (sha3_256 E (challenge_str E mine_params pl @ hex n), hex n, pl)))
    \<and> ((\<forall>k. \<not> accepts E (challenge_str E mine_params pl) (mp_difficulty mine_params) k)
          \<longrightarrow> mine E ch mine_params miner_addr = None)"
  using assms
  by (auto simp: mine_def pow_search_first pow_search_never)

subsection \<open>The example ledger is mined\<close>

lemma str_nat_digit: "n < 10 \<Longrightarrow> str_nat n = [digit_char n]"
  by (simp add: str_nat.simps)

lemma hex_digit_small: "n < 16 \<Longrightarrow> hex n = [hex_digit n]"
  by (simp add: hex.simps)

lemma example_params_ok:
  "get_latest_block_metaparams example_externals example_genesis = Inr example_params"
  by (simp add: get_latest_block_metaparams_def chain_last_def example_genesis_unfold
       block_hash_def block_str_def example_externals_def example_digest_def str_nat_digit
       digit_char_def str_val_def str_int_def example_params_def numeral_2_eq_2)


lemma example_distribute:
  "distribute_rewards example_externals example_chance example_params MINING_ADDRESS =
     Some (Inr [(''0'', example_payment)])"
  by (simp add: distribute_rewards_def example_params_def example_chance_def Let_def
      reward_tx_def str_nat_digit digit_char_def example_payment_def)

lemma example_challenge:
  "challenge_str example_externals example_params [(''0'', example_payment)] = ''1000f00d2110''"
  by (simp add: challenge_str_def example_params_def example_externals_def str_nat_digit
      digit_char_def str_int_def)

lemma example_accepts:
  "\<not> accepts example_externals ''1000f00d2110'' 2 0"
  "accepts example_externals ''1000f00d2110'' 2 1"
  by (simp_all add: example_externals_def accepts_def hex_digit_small hex_digit_def
      example_digest_def n_zeroes_def)

lemma example_pow:
  "pow_search example_externals ''1000f00d2110'' 2 0 = Some (''00f00d'', 1)"
proof -
  have "\<forall>k<1. \<not> accepts example_externals ''1000f00d2110'' 2 k"
    using example_accepts(1) by simp
  from pow_search_first [OF example_accepts(2) this] show ?thesis
    by (simp add: example_externals_def example_digest_def hex_digit_small hex_digit_def)
qed

lemma example_difficulty: "mp_difficulty example_params = 2"
  by (simp add: example_params_def)

lemma example_mine:
  "mine example_externals example_chance example_params MINING_ADDRESS =
     Some (Inr (''00f00d'', ''1'', [(''0'', example_payment)]))"
  by (simp add: mine_def example_distribute example_challenge example_difficulty example_pow
      hex_digit_small hex_digit_def)

lemma create_block_succeeds:
  "previous_hash_of E s = Inr ph \<Longrightarrow> \<exists>r. create_block E mined nc now s = Inr r"
  by (simp add: create_block_def Let_def)

lemma example_genesis_chain: "index example_genesis = 1" "length (chain example_genesis) = 1"
  by (simp_all add: example_genesis_unfold)

lemma example_mine_block:
  "mine_block example_externals example_chance ''t4'' example_genesis =
     (case create_block example_externals ''00f00d'' ''1'' ''t4''
             (example_genesis\<lparr> TXPOOL := [(''0'', example_payment)] \<rparr>) of
        Inl e \<Rightarrow>
          Some (Inr (error_creating_block, example_genesis\<lparr> TXPOOL := [(''0'', example_payment)] \<rparr>))
      | Inr r \<Rightarrow> Some (Inr (block_created, snd r)))"
  by (simp add: mine_block_def example_params_ok example_mine Let_def)

lemma example_mined_ok:
  "mine_block example_externals example_chance ''t4'' example_genesis =
     Some (Inr (block_created, example_mined))"
  and example_mined_chain: "length (chain example_mined) = 2"
  and example_mined_pool: "transactions (last (chain example_mined)) = [(''0'', example_payment)]"
proof -
  let ?s = "example_genesis\<lparr> TXPOOL := [(''0'', example_payment)] \<rparr>"
  have "previous_hash_of example_externals ?s = Inr (PyStr ''00f00d'')"
    using example_params_ok
    by (auto simp: previous_hash_of_def get_latest_block_metaparams_def example_genesis_chain
        example_params_def split: sum.splits)
  from create_block_succeeds [OF this] obtain r
    where r: "create_block example_externals ''00f00d'' ''1'' ''t4'' ?s = Inr r"
    by blast
  with example_mine_block show m: "mine_block example_externals example_chance ''t4'' example_genesis =
     Some (Inr (block_created, example_mined))"
    by (simp add: example_mined_def)
  with example_mine_block r have e: "example_mined = snd r" by simp
  from r have i: "index ?s = length (chain ?s)" by (simp add: example_genesis_chain)
  from create_block_chain [OF r i] e show "length (chain example_mined) = 2"
    and "transactions (last (chain example_mined)) = [(''0'', example_payment)]"
    by (simp_all add: example_genesis_chain)
qed

subsection \<open>The theorems at the examples\<close>

theorem chain_linkage_witness:
  "block_index (chain example_mined ! 0) = 0
   \<and> previous_block_hash (chain example_mined ! 0) = PyInt 0
   \<and> block_index (chain example_mined ! 1) = 1
   \<and> previous_block_hash (chain example_mined ! 1) =
       PyStr (block_hash example_externals (chain example_mined ! 0))"
proof -
  have b: "built example_externals example_mined"
    using built.mined [OF built.genesis [OF example_genesis_ok] example_mined_ok] by simp
  from chain_linkage [OF b, of 0] chain_linkage [OF b, of 1] show ?thesis
    by (simp add: example_mined_chain)
qed

theorem proof_of_work_first_exact_witness:
  "mine example_externals example_chance example_params MINING_ADDRESS =
     Some (Inr (''00f00d'', ''1'', [(''0'', example_payment)]))"
proof -
  have "\<forall>k<1. \<not> accepts example_externals
      (challenge_str example_externals example_params [(''0'', example_payment)])
      (mp_difficulty example_params) k"
    using example_accepts(1) by (simp add: example_challenge example_difficulty)
  moreover have "accepts example_externals
      (challenge_str example_externals example_params [(''0'', example_payment)])
      (mp_difficulty example_params) 1"
    using example_accepts(2) by (simp add: example_challenge example_difficulty)
  ultimately show ?thesis
    using proof_of_work_first_exact [OF example_distribute, of 1]
    by (simp add: example_challenge hex_digit_small hex_digit_def)
       (simp add: example_externals_def example_digest_def)
qed

subsection \<open>Loading the chain\<close>

lemma load_chain_chain:
  "chain (load_chain block_files now s) = chain s @ map (\<lambda>bd. block_of_dict bd now) block_files"
proof -
  have f: "chain (fold (\<lambda>bd s'. s'\<lparr> chain := chain s' @ [block_of_dict bd now] \<rparr>) fs s0)
        = chain s0 @ map (\<lambda>bd. block_of_dict bd now) fs" for fs s0
    by (induction fs arbitrary: s0) simp_all
  show ?thesis unfolding load_chain_def f by simp
qed

lemma load_chain_indices:
  "map block_index (chain (load_chain block_files now (new_ledger dir)))
     = map bd_block_index block_files"
  by (simp add: load_chain_chain new_ledger_def block_of_dict_def Block_def comp_def)

lemma create_block_files:
  assumes "create_block E mined nc now s = Inr r"
  obtains bd where "bd_block_index bd = index s" and "bd_transactions bd = TXPOOL s"
    and "blocks_path (snd r) = dict_set (str_nat (index s) @ ''.json'') bd (blocks_path s)"
proof (cases "previous_hash_of E s")
  case (Inl e)
  with assms show ?thesis by (simp add: create_block_def)
next
  case (Inr ph)
  let ?bd = "\<lparr> bd_block_index = index s, bd_previous_block_hash = ph,
      bd_difficulty = l_difficulty s, bd_nonce = nc, bd_mined_block_hash = mined,
      bd_percent_tx_rewarded = percentage_of_transactions_rewarded s,
      bd_mining_fee = mining_fees s, bd_reward_for_tx = reward_for_transaction s,
      bd_transactions = TXPOOL s,
      bd_timestamp = block_timestamp
        (Block (index s) mined ph nc (l_difficulty s) (TXPOOL s) None now) \<rparr>"
  from Inr assms
  have "blocks_path (snd r) = dict_set (str_nat (index s) @ ''.json'') ?bd (blocks_path s)"
    by (auto simp: create_block_def Let_def set_metaparams_def)
  with that [of ?bd] show ?thesis by simp
qed

lemma example_mined_files:
  "map bd_block_index (dict_values (blocks_path example_mined)) = [0, 1]"
proof -
  let ?s = "example_genesis\<lparr> TXPOOL := [(''0'', example_payment)] \<rparr>"
  from example_mined_ok(1) example_mine_block obtain r
    where r: "create_block example_externals ''00f00d'' ''1'' ''t4'' ?s = Inr r"
      and e: "example_mined = snd r"
    by (auto split: sum.splits)
  from r obtain bd where bd: "bd_block_index bd = 1"
    and f: "blocks_path (snd r) = dict_set (str_nat 1 @ ''.json'') bd (blocks_path example_genesis)"
    by (rule create_block_files) (simp add: example_genesis_chain)
  have g: "map bd_block_index (dict_values (blocks_path example_genesis)) = [0]"
    "map fst (blocks_path example_genesis) = [''0.json'']"
    by (simp_all add: example_genesis_unfold str_nat_digit digit_char_def)
  then obtain b0 where b0: "blocks_path example_genesis = [(''0.json'', b0)]" "bd_block_index b0 = 0"
    by (auto simp: dict_values_def)
  with f e bd show ?thesis
    by (simp add: dict_values_def str_nat_digit digit_char_def)
qed

text \<open>
  Claim C9, at the two block files that the example ledger wrote, listed by the file
  system with \<open>1.json\<close> before \<open>0.json\<close>: \<open>load_chain\<close> appends the blocks in the
  order of the listing, so that the chain holds the block of index 1 at position 0 and
  the block of index 0 at position 1.
\<close>

theorem load_chain_enumeration_order:
  "map block_index
     (chain (load_chain (rev (dict_values (blocks_path example_mined))) ''t5''
               (new_ledger (blocks_path example_mined))))
   = [1, 0]"
  by (simp add: load_chain_indices rev_map [symmetric] example_mined_files)

text \<open>
  A ledger whose genesis mints 1000 to the address \<open>IceCereum-MiningPayment\<close>, and
  the same ledger after \<open>/mine-block\<close>.
\<close>

subsection \<open>Queries by address\<close>


lemma with_txhash_fields [simp]:
  "sendr_addr (with_txhash E f) = sendr_addr f"
  "recvr_addr (with_txhash E f) = recvr_addr f"
  "tx_value (with_txhash E f) = tx_value f"
  "mining_fee (with_txhash E f) = mining_fee f"
  "final_value (with_txhash E f) = final_value f"
  by (simp_all add: with_txhash_def tx_fields.defs transaction.defs)





















text \<open>
  An instance of the two library functions of the API, for the examples only: a string
  is an address when it starts with \<open>0x\<close>; a signature of six characters is a
  signature by the account that its first four characters name, whatever the message,
  and a signature of another length is refused.
\<close>

text \<open>
  A session as the GET of \<open>/transfer-funds\<close> leaves it, and a signed request that
  answers it.
\<close>

subsection \<open>Authentication of a request\<close>




subsection \<open>The token of a session\<close>

lemma example_first_post_facts:
  "get_latest_block_metaparams example_externals example_genesis = Inr example_params"
  "mp_mining_fees example_params = 1"
  "validate_add_transaction example_externals example_incoming 1 ''t2'' example_genesis
     = (1, example_first_post)"
  "chain example_first_post = chain example_genesis"
  "index example_first_post = index example_genesis"
  "mining_fees example_first_post = 1"
  "map fst (TXPOOL example_first_post) = [''0'']"
  "get_balance_of_addr example_first_post ''0xab'' = (True, 900)"
proof -
  show "get_latest_block_metaparams example_externals example_genesis = Inr example_params"
    by (rule example_params_ok)
  show "mp_mining_fees example_params = 1" by (simp add: example_params_def)
  have l: "lower ''0xab'' = ''0xab''" "lower ''0xcd'' = ''0xcd''"
    by (simp_all add: lower_def lower_char_def)
  have v: "validate_add_transaction example_externals example_incoming 1 ''t2'' example_genesis
     = (1, add_transaction example_externals ''0xab'' ''0xcd'' 100 1 ''t2'' (Some ''sig'')
            example_genesis)"
    by (simp add: validate_add_transaction_def Let_def example_incoming_def l
        example_genesis_balance_lower)
  then show "validate_add_transaction example_externals example_incoming 1 ''t2'' example_genesis
     = (1, example_first_post)"
    by (simp add: example_first_post_def)
  from v have e: "example_first_post =
      add_transaction example_externals ''0xab'' ''0xcd'' 100 1 ''t2'' (Some ''sig'') example_genesis"
    by (simp add: example_first_post_def)
  show "chain example_first_post = chain example_genesis"
    "index example_first_post = index example_genesis"
    by (simp_all add: e add_transaction_def Let_def)
  show "mining_fees example_first_post = 1"
    by (simp add: e add_transaction_def Let_def) (simp add: example_genesis_unfold)
  have t: "TXPOOL example_genesis = []" "transaction_number example_genesis = 0"
    by (simp_all add: example_genesis_unfold)
  show "map fst (TXPOOL example_first_post) = [''0'']"
    by (simp add: e add_transaction_def Let_def t str_nat_digit digit_char_def)
  have "all_transactions example_first_post =
      all_transactions example_genesis @
      [with_txhash example_externals
         \<lparr> sendr_addr = ''0xab'', recvr_addr = ''0xcd'', tx_value = 100, mining_fee = 1,
           final_value = 99, skscript = ''sig'', timestamp = ''t2'' \<rparr>]"
    by (simp add: e add_transaction_def Let_def t all_transactions_def dict_values_def l)
  then show "get_balance_of_addr example_first_post ''0xab'' = (True, 900)"
    using example_genesis_history
    by (simp add: get_balance_of_addr_eq l appears_def received_minus_sent_def)
qed

lemma transfer_funds_POST_admits:
  assumes "chain s \<noteq> []"
    and "s_identifier sess = Some i" and "s_one_time_nonce sess = Some token"
    and "rb = \<lparr> rb_sendr_addr = Some sendr, rb_recvr_addr = Some recvr, rb_value = Some v,
                 rb_one_time_nonce = Some sent_token, rb_skscript = Some script,
                 rb_skscript_nonce = Some signature \<rparr>"
    and "isAddress X sendr" and "isAddress X recvr"
    and "skscript_auth E X token sendr recvr v signature = None"
    and "validate_add_transaction E
           \<lparr> in_sendr_addr = sendr, in_recvr_addr = recvr, in_value = v, in_skscript = script \<rparr>
           (mining_fees s) now s = (1, s')"
  shows "transfer_funds_POST E X sess rb now s = Inr (transaction_added, sess, s')"
  using assms
  by (simp add: transfer_funds_POST_def get_latest_block_metaparams_def chain_last_def)

text \<open>
  Claim C4, at the example ledger: the GET issues the token \<open>5f2a\<close> to the sender
  \<open>0xab\<close>; the signed request is admitted; and the same request, sent again with
  the same session, is admitted a second time, so that the pool holds two transactions
  made with the one token. The POST leaves the session as it found it.
\<close>

theorem token_accepted_twice:
  "transfer_funds_GET example_externals (Some ''0xab'') ''5f2a''
     \<lparr> s_identifier = None, s_one_time_nonce = None \<rparr> example_genesis
     = Inr (challenge_issued 1 ''5f2a'', example_session)
   \<and> transfer_funds_POST example_externals example_api example_session example_body ''t2''
       example_genesis
     = Inr (transaction_added, example_session, example_first_post)
   \<and> transfer_funds_POST example_externals example_api example_session example_body ''t3''
       example_first_post
     = Inr (transaction_added, example_session, example_second_post)
   \<and> map fst (TXPOOL example_second_post) = [''0'', ''1'']"
proof -
  have l: "lower ''0xab'' = ''0xab''" "lower ''0xcd'' = ''0xcd''" "lower ''0xAB'' = ''0xab''"
    by (simp_all add: lower_def lower_char_def)
  have g: "transfer_funds_GET example_externals (Some ''0xab'') ''5f2a''
     \<lparr> s_identifier = None, s_one_time_nonce = None \<rparr> example_genesis
     = Inr (challenge_issued 1 ''5f2a'', example_session)"
    by (simp add: transfer_funds_GET_def example_first_post_facts example_session_def)
  have a: "skscript_auth example_externals example_api ''5f2a'' ''0xab'' ''0xcd'' 100 ''0xABzz''
      = None"
    by (simp add: skscript_auth_def example_api_def Let_def l rstrip_sp_def lstrip_sp_def)
  have c: "chain example_genesis \<noteq> []" "chain example_first_post \<noteq> []"
    using example_genesis_chain by (auto simp: example_first_post_facts)
  have f: "mining_fees example_genesis = 1"
    by (simp add: example_genesis_unfold)
  have v2: "validate_add_transaction example_externals example_incoming 1 ''t3'' example_first_post
     = (1, example_second_post)"
    by (simp add: example_second_post_def validate_add_transaction_def Let_def
        example_incoming_def l example_first_post_facts)
  have p1: "transfer_funds_POST example_externals example_api example_session example_body ''t2''
       example_genesis
     = Inr (transaction_added, example_session, example_first_post)"
    by (rule transfer_funds_POST_admits [OF c(1) _ _ example_body_def _ _ a])
       (simp_all add: example_session_def example_api_def f example_first_post_facts
          example_incoming_def [symmetric])
  have p2: "transfer_funds_POST example_externals example_api example_session example_body ''t3''
       example_first_post
     = Inr (transaction_added, example_session, example_second_post)"
    by (rule transfer_funds_POST_admits [OF c(2) _ _ example_body_def _ _ a])
       (simp_all add: example_session_def example_api_def example_first_post_facts v2
          example_incoming_def [symmetric])
  have e: "example_second_post =
      add_transaction example_externals ''0xab'' ''0xcd'' 100 1 ''t3'' (Some ''sig'')
        example_first_post"
    by (simp add: example_second_post_def validate_add_transaction_def Let_def
        example_incoming_def l example_first_post_facts)
  have n: "transaction_number example_first_post = 1"
    using example_first_post_facts(3)
    by (simp add: validate_add_transaction_def Let_def example_incoming_def l
        example_genesis_balance_lower add_transaction_def example_first_post_def)
       (simp add: example_genesis_unfold)
  obtain tx where t: "TXPOOL example_first_post = [(''0'', tx)]"
    using example_first_post_facts(7) by (cases "TXPOOL example_first_post") auto
  have "map fst (TXPOOL example_second_post) = [''0'', ''1'']"
    by (simp add: e add_transaction_def Let_def n t str_nat_digit digit_char_def)
  with g p1 p2 show ?thesis by simp
qed

subsection \<open>Keys of a pool\<close>

lemma of_char_digit_char: "d < 10 \<Longrightarrow> (of_char (digit_char d) :: nat) = 48 + d"
proof -
  assume "d < 10"
  then have "d \<in> {0, 1, 2, 3, 4, 5, 6, 7, 8, 9}" by auto
  then show ?thesis by (auto simp: digit_char_def)
qed

lemma nat_of_str_snoc: "nat_of_str (s @ [c]) = 10 * nat_of_str s + (of_char c - 48)"
  by (simp add: nat_of_str_def)

lemma nat_of_str_nat: "nat_of_str (str_nat n) = n"
proof (induction n rule: str_nat.induct)
  case (1 n)
  show ?case
  proof (cases "n < 10")
    case True
    then show ?thesis
      by (subst str_nat.simps) (simp add: nat_of_str_def of_char_digit_char)
  next
    case False
    with "1" have "nat_of_str (str_nat (n div 10)) = n div 10" by simp
    with False show ?thesis
      by (subst str_nat.simps) (simp add: nat_of_str_snoc of_char_digit_char)
  qed
qed

lemma str_nat_inj: "str_nat m = str_nat n \<Longrightarrow> m = n"
  by (metis nat_of_str_nat)

lemma dict_set_fresh: "k \<notin> fst ` set d \<Longrightarrow> dict_set k v d = d @ [(k, v)]"
  by (induction d) auto

lemma well_keyed_fresh: "well_keyed pl \<Longrightarrow> str_nat (length pl) \<notin> fst ` set pl"
proof
  assume w: "well_keyed pl" and "str_nat (length pl) \<in> fst ` set pl"
  then have "str_nat (length pl) \<in> set (map fst pl)" by simp
  with w have "str_nat (length pl) \<in> set (map str_nat [0..<length pl])"
    unfolding well_keyed_def by metis
  then obtain i where "i < length pl" "str_nat i = str_nat (length pl)" by auto
  with str_nat_inj show False by fastforce
qed

lemma well_keyed_snoc: "well_keyed pl \<Longrightarrow> well_keyed (pl @ [(str_nat (length pl), tx)])"
  by (simp add: well_keyed_def)

lemma well_keyed_distinct: "well_keyed pl \<Longrightarrow> distinct (map fst pl)"
  by (simp add: well_keyed_def distinct_map inj_on_def str_nat_inj)

lemma well_keyed_get:
  assumes "well_keyed pl" and "i < length pl"
  shows "dict_get pl (str_int (int i)) = Inr (snd (pl ! i))"
proof -
  from assms have "fst (pl ! i) = str_nat i"
    by (metis add.left_neutral length_map nth_map nth_upt well_keyed_def)
  with assms(2) have "(str_nat i, snd (pl ! i)) \<in> set pl"
    by (metis nth_mem prod.collapse)
  with well_keyed_distinct [OF assms(1)] have "map_of pl (str_nat i) = Some (snd (pl ! i))"
    by simp
  then show ?thesis by (simp add: dict_get_def str_int_def)
qed

lemma reward_tx_snoc:
  assumes "well_keyed pl"
  shows "reward_tx E recvr reward pl sendr now =
     pl @ [(str_nat (length pl),
            with_txhash E
              \<lparr> sendr_addr = (case sendr of None \<Rightarrow> ''IceCereum-Rewards''
                               | Some a \<Rightarrow> if a = [] then ''IceCereum-Rewards'' else a),
                recvr_addr = recvr, tx_value = reward, mining_fee = 0, final_value = reward,
                skscript = (case sendr of None \<Rightarrow> ''IceCereum-Rewards''
                             | Some a \<Rightarrow> if a = [] then ''IceCereum-Rewards'' else a),
                timestamp = now \<rparr>)]"
  by (simp add: reward_tx_def Let_def dict_set_fresh [OF well_keyed_fresh [OF assms]])


subsection \<open>The rewards\<close>

lemma length_reward_entries [simp]:
  "length (reward_entries E ts reward pl pos chosen) = length chosen"
  by (induction chosen arbitrary: pos) simp_all

lemma pay_rewards_entries:
  assumes "well_keyed (pl @ acc)" and "\<forall>t\<in>set chosen. t < length pl"
  shows "pay_rewards E ts reward (map int chosen) (pl @ acc) =
     Inr (pl @ acc @ reward_entries E ts reward pl (length pl + length acc) chosen)"
  using assms
proof (induction chosen arbitrary: acc)
  case Nil
  show ?case by simp
next
  case (Cons t rest)
  from Cons.prems(2) have t: "t < length pl" by simp
  then have g: "dict_get (pl @ acc) (str_int (int t)) = Inr (snd (pl ! t))"
    using well_keyed_get [OF Cons.prems(1), of t] by (simp add: nth_append)
  let ?e = "reward_entry E ts reward pl (length pl + length acc) t"
  have r: "reward_tx E (sendr_addr (snd (pl ! t))) reward (pl @ acc) None
             (ts (length pl + length acc)) = pl @ (acc @ [?e])"
    by (simp add: reward_tx_snoc [OF Cons.prems(1)] reward_entry_def)
  have w: "well_keyed (pl @ (acc @ [?e]))"
    using well_keyed_snoc [OF Cons.prems(1)] by (simp add: reward_entry_def)
  from Cons.IH [OF w] Cons.prems(2) show ?case
    by (simp add: g r)
qed

lemma randint_range: "0 < n \<Longrightarrow> randint 0 (int n - 1) d = Inr (int (d mod n))"
  by (simp add: randint_def zmod_int)

lemma select_rewarded_done:
  "\<not> int (length rw) \<le> m \<Longrightarrow> select_rewarded n m ds i rw = Some (Inr rw)"
  by (subst select_rewarded.simps) simp

lemma select_rewarded_step:
  "0 < n \<Longrightarrow> int (length rw) \<le> m \<Longrightarrow>
     select_rewarded (int n) m ds i rw =
       select_rewarded (int n) m ds (Suc i)
         (if int (ds i mod n) \<in> set rw then rw else rw @ [int (ds i mod n)])"
  by (subst select_rewarded.simps) (simp add: randint_range)

lemma select_rewarded_total:
  assumes "0 < n"
  shows "distinct rw \<Longrightarrow> set rw \<subseteq> int ` {..<n} \<Longrightarrow> int (length rw) \<le> m + 1 \<Longrightarrow>
     m + 1 \<le> int (card (set rw \<union> (\<lambda>q. int (ds q mod n)) ` {i..<j})) \<Longrightarrow>
     \<exists>r. select_rewarded (int n) m ds i rw = Some (Inr r) \<and> distinct r
          \<and> set r \<subseteq> int ` {..<n} \<and> int (length r) = m + 1"
proof (induction "j - i" arbitrary: i rw)
  case 0
  then have "{i..<j} = {}" by simp
  with "0.prems" have "int (length rw) = m + 1"
    by (simp add: distinct_card)
  with "0.prems" select_rewarded_done [of rw m "int n" ds i] show ?case by simp
next
  case (Suc x)
  show ?case
  proof (cases "int (length rw) \<le> m")
    case False
    with Suc.prems have "int (length rw) = m + 1" by simp
    with Suc.prems select_rewarded_done [of rw m "int n" ds i] show ?thesis by simp
  next
    case True
    let ?t = "int (ds i mod n)"
    let ?rw = "if ?t \<in> set rw then rw else rw @ [?t]"
    from Suc.hyps(2) have ij: "i < j" and x: "x = j - Suc i" by simp_all
    then have "{i..<j} = insert i {Suc i..<j}" by auto
    then have u: "set ?rw \<union> (\<lambda>q. int (ds q mod n)) ` {Suc i..<j}
               = set rw \<union> (\<lambda>q. int (ds q mod n)) ` {i..<j}"
      by auto
    have d: "distinct ?rw" using Suc.prems(1) by simp
    have s: "set ?rw \<subseteq> int ` {..<n}" using Suc.prems(2) assms by auto
    have l: "int (length ?rw) \<le> m + 1" using True by simp
    from Suc.hyps(1) [OF x d s l] Suc.prems(4) u
    obtain r where "select_rewarded (int n) m ds (Suc i) ?rw = Some (Inr r)" "distinct r"
      "set r \<subseteq> int ` {..<n}" "int (length r) = m + 1"
      by auto
    with select_rewarded_step [OF assms True, of ds i] show ?thesis by auto
  qed
qed



lemma well_keyed_rewards:
  "well_keyed pl \<Longrightarrow> well_keyed (pl @ reward_entries E ts reward pl0 (length pl) chosen)"
proof (induction chosen arbitrary: pl)
  case Nil
  then show ?case by simp
next
  case (Cons t rest)
  let ?e = "reward_entry E ts reward pl0 (length pl) t"
  have "well_keyed (pl @ [?e])"
    using well_keyed_snoc [OF Cons.prems] by (simp add: reward_entry_def)
  from Cons.IH [OF this] show ?case by simp
qed

lemma payment_snoc:
  assumes "well_keyed pl1"
  shows "reward_tx E miner_addr amount pl1 (Some ''IceCereum-MiningPayment'') (ts (length pl1))
           = pl1 @ [payment_entry E ts miner_addr amount (length pl1)]"
  by (simp add: reward_tx_snoc [OF assms] payment_entry_def)

lemma card_int_image: "card ((\<lambda>q. int (f q)) ` A) = card (f ` A)"
proof -
  have "(\<lambda>q. int (f q)) ` A = int ` (f ` A)" by auto
  then show ?thesis by (simp add: card_image)
qed

lemma distribute_rewards_many:
  assumes "\<not> mp_percent_tx_rewarded mp * real (length (mp_TXPOOL mp)) < 1"
    and "select_rewarded (int (length (mp_TXPOOL mp)))
           (py_int (mp_percent_tx_rewarded mp * real (length (mp_TXPOOL mp)))) (draws ch) 0 []
         = Some (Inr r)"
    and "pay_rewards E (times ch) (mp_reward_for_tx mp) r (mp_TXPOOL mp) = Inr pl1"
  shows "distribute_rewards E ch mp miner_addr =
     Some (Inr (reward_tx E miner_addr (real (length (mp_TXPOOL mp)) * mp_mining_fees mp) pl1
                  (Some ''IceCereum-MiningPayment'') (times ch (length pl1))))"
  using assms by (simp add: distribute_rewards_def Let_def)



lemma many_rewards_appended:
  assumes keys: "well_keyed (mp_TXPOOL mine_params)"
    and k: "1 \<le> mp_percent_tx_rewarded mine_params * real (length (mp_TXPOOL mine_params))"
    and c: "nat \<lfloor>mp_percent_tx_rewarded mine_params * real (length (mp_TXPOOL mine_params))\<rfloor> + 1
            \<le> card ((\<lambda>q. draws ch q mod length (mp_TXPOOL mine_params)) ` {..<j})"
  shows "\<exists>chosen. distinct chosen \<and> set chosen \<subseteq> {..<length (mp_TXPOOL mine_params)}
      \<and> length chosen =
          nat \<lfloor>mp_percent_tx_rewarded mine_params * real (length (mp_TXPOOL mine_params))\<rfloor> + 1
      \<and> distribute_rewards E ch mine_params miner_addr =
          Some (Inr (mp_TXPOOL mine_params
                     @ reward_entries E (times ch) (mp_reward_for_tx mine_params)
                         (mp_TXPOOL mine_params) (length (mp_TXPOOL mine_params)) chosen
                     @ [payment_entry E (times ch) miner_addr
                          (real (length (mp_TXPOOL mine_params)) * mp_mining_fees mine_params)
                          (length (mp_TXPOOL mine_params) + length chosen)]))"
proof -
  let ?pl = "mp_TXPOOL mine_params" and ?ts = "times ch"
  let ?N = "length ?pl" and ?reward = "mp_reward_for_tx mine_params"
  let ?k = "mp_percent_tx_rewarded mine_params * real ?N"
  let ?amount = "real ?N * mp_mining_fees mine_params"
  let ?result = "distribute_rewards E ch mine_params miner_addr"
    from k have N: "0 < ?N" by (cases ?pl) auto
    from k have m: "py_int ?k = int (nat \<lfloor>?k\<rfloor>)" by (simp add: py_int_def)
    from k have f: "0 \<le> \<lfloor>?k\<rfloor>" by simp
    from c have "int (nat \<lfloor>?k\<rfloor> + 1) \<le> int (card ((\<lambda>q. draws ch q mod ?N) ` {..<j}))"
      by (simp only: of_nat_le_iff)
    with f have "int (nat \<lfloor>?k\<rfloor>) + 1
          \<le> int (card (set [] \<union> (\<lambda>q. int (draws ch q mod ?N)) ` {0..<j}))"
      by (simp add: card_int_image atLeast0LessThan)
    from select_rewarded_total [OF N _ _ _ this]
    obtain r where r: "select_rewarded (int ?N) (int (nat \<lfloor>?k\<rfloor>)) (draws ch) 0 [] = Some (Inr r)"
      and d: "distinct r" and s: "set r \<subseteq> int ` {..<?N}"
      and l: "int (length r) = int (nat \<lfloor>?k\<rfloor>) + 1"
      by auto
    let ?chosen = "map nat r"
    have i: "map int ?chosen = r"
    proof -
      have "\<And>x. x \<in> set r \<Longrightarrow> int (nat x) = x" using s by auto
      then show ?thesis by (simp add: map_idI)
    qed
    from d have dc: "distinct ?chosen" by (metis distinct_map i)
    from s have sc: "set ?chosen \<subseteq> {..<?N}" by auto
    from l have "int (length r) = int (nat \<lfloor>?k\<rfloor> + 1)" by simp
    then have "length r = nat \<lfloor>?k\<rfloor> + 1" by (simp only: of_nat_eq_iff)
    then have lc: "length ?chosen = nat \<lfloor>?k\<rfloor> + 1" by simp
    from sc have in_pl: "\<forall>t\<in>set ?chosen. t < length ?pl" by auto
    have keys0: "well_keyed (?pl @ [])" using keys by simp
    have "pay_rewards E ?ts ?reward (map int ?chosen) (?pl @ []) =
        Inr (?pl @ [] @ reward_entries E ?ts ?reward ?pl (length ?pl + length ([] :: pool)) ?chosen)"
      by (rule pay_rewards_entries [OF keys0 in_pl])
    then have p: "pay_rewards E ?ts ?reward r ?pl =
        Inr (?pl @ reward_entries E ?ts ?reward ?pl ?N ?chosen)"
      unfolding i by simp
    have w: "well_keyed (?pl @ reward_entries E ?ts ?reward ?pl ?N ?chosen)"
      by (rule well_keyed_rewards [OF keys])
    from k have nk: "\<not> ?k < 1" by simp
    from r have r': "select_rewarded (int ?N) (py_int ?k) (draws ch) 0 [] = Some (Inr r)"
      by (simp only: m)
    have "?result =
        Some (Inr (?pl @ reward_entries E ?ts ?reward ?pl ?N ?chosen
                   @ [payment_entry E ?ts miner_addr ?amount (?N + length ?chosen)]))"
      unfolding distribute_rewards_many [OF nk r' p] payment_snoc [OF w] by simp
    with dc sc lc show ?thesis by blast
  qed



subsection \<open>Ten admissions\<close>

lemma admitted_inv_genesis: "admitted_inv 0 example_genesis"
  by (simp add: admitted_inv_def example_genesis_balance_lower well_keyed_def)
     (simp add: example_genesis_unfold)

lemma all_transactions_add:
  assumes "well_keyed (TXPOOL s)" and "transaction_number s = length (TXPOOL s)"
  shows "all_transactions (add_transaction E sendr recvr v fee ts script s) =
     all_transactions s @
     [with_txhash E
        \<lparr> sendr_addr = lower sendr, recvr_addr = lower recvr, tx_value = v, mining_fee = fee,
          final_value = v - fee,
          skscript = (case script of None \<Rightarrow> sendr | Some k \<Rightarrow> if k = [] then sendr else k),
          timestamp = ts \<rparr>]"
  using dict_set_fresh [OF well_keyed_fresh [OF assms(1)]] assms(2)
  by (simp add: all_transactions_def add_transaction_def Let_def dict_values_def)

lemma admitted_inv_step:
  assumes "admitted_inv n s" and "n < 900"
  shows "admitted_inv (Suc n)
           (snd (validate_add_transaction example_externals small_incoming 1 ts s))"
proof -
  have l: "lower ''0xab'' = ''0xab''" "lower ''0xcd'' = ''0xcd''"
    by (simp_all add: lower_def lower_char_def)
  from assms(1) have b: "get_balance_of_addr s ''0xab'' = (True, 1000 - real n)"
    and w: "well_keyed (TXPOOL s)" and t: "transaction_number s = length (TXPOOL s)"
    and len: "length (TXPOOL s) = n"
    by (simp_all add: admitted_inv_def)
  let ?s = "add_transaction example_externals ''0xab'' ''0xcd'' 1 1 ts (Some ''sig'') s"
  from b assms(2) have v: "snd (validate_add_transaction example_externals small_incoming 1 ts s) = ?s"
    by (simp add: validate_add_transaction_def Let_def small_incoming_def l)
  have p: "TXPOOL ?s = TXPOOL s @
      [(str_nat (length (TXPOOL s)),
        with_txhash example_externals
          \<lparr> sendr_addr = ''0xab'', recvr_addr = ''0xcd'', tx_value = 1, mining_fee = 1,
            final_value = 0, skscript = ''sig'', timestamp = ts \<rparr>)]"
    using dict_set_fresh [OF well_keyed_fresh [OF w]] t
    by (simp add: add_transaction_def Let_def l)
  have w': "well_keyed (TXPOOL ?s)" unfolding p by (rule well_keyed_snoc [OF w])
  from b have "appears s ''0xab''" "received_minus_sent s ''0xab'' = 1000 - real n"
    by (simp_all add: get_balance_of_addr_eq l)
  then have b': "get_balance_of_addr ?s ''0xab'' = (True, 1000 - real (Suc n))"
    by (simp add: get_balance_of_addr_eq l all_transactions_add [OF w t] appears_def
        received_minus_sent_def)
  from assms(1) w' b' p len show ?thesis
    unfolding v by (simp add: admitted_inv_def) (simp add: add_transaction_def Let_def)
qed

lemma admitted_inv_fold:
  "admitted_inv n s \<Longrightarrow> n + length tss < 900 \<Longrightarrow>
     admitted_inv (n + length tss)
       (fold (\<lambda>ts s. snd (validate_add_transaction example_externals small_incoming 1 ts s)) tss s)"
proof (induction tss arbitrary: n s)
  case Nil
  then show ?case by simp
next
  case (Cons ts tss)
  from Cons.prems have "admitted_inv (Suc n)
      (snd (validate_add_transaction example_externals small_incoming 1 ts s))"
    by (intro admitted_inv_step) simp_all
  from Cons.IH [OF this] Cons.prems(2) show ?case by simp
qed

lemma example_ten_inv: "admitted_inv 10 example_ten"
proof -
  let ?tss = "[''a0'', ''a1'', ''a2'', ''a3'', ''a4'', ''a5'', ''a6'', ''a7'', ''a8'', ''a9'']"
  have n: "0 + length ?tss = 10" by simp
  have "0 + length ?tss < 900" by simp
  from admitted_inv_fold [OF admitted_inv_genesis this] show ?thesis
    unfolding n example_ten_def .
qed

lemma ten_params_ok:
  "get_latest_block_metaparams example_externals example_ten = Inr ten_params"
  using example_ten_inv example_params_ok
  by (auto simp: admitted_inv_def get_latest_block_metaparams_def ten_params_def
      example_params_def split: sum.splits)

lemma ten_params_facts:
  "length (mp_TXPOOL ten_params) = 10" "well_keyed (mp_TXPOOL ten_params)"
  "mp_percent_tx_rewarded ten_params * real (length (mp_TXPOOL ten_params)) = 1"
  using example_ten_inv by (simp_all add: admitted_inv_def ten_params_def)

subsection \<open>Draws that never give a second transaction\<close>







lemma distribute_rewards_empty_pool:
  assumes "mp_TXPOOL mp = []" and "coin ch < mp_percent_tx_rewarded mp"
  shows "distribute_rewards E ch mp miner_addr = Some (Inl ValueError)"
  using assms by (simp add: distribute_rewards_def Let_def randint_def)

lemma mine_pool:
  assumes "mine E ch mp miner_addr = Some (Inr (hash_string, nonce_text, pl))"
  shows "distribute_rewards E ch mp miner_addr = Some (Inr pl)"
  using assms by (auto simp: mine_def split: option.splits sum.splits)

lemma two_draws: "card ((\<lambda>q. draws example_chance q mod 10) ` {..<2}) = 2"
proof -
  have "{..<2::nat} = {0, 1}" by auto
  then show ?thesis by (simp add: example_chance_def)
qed



subsection \<open>Sealing a pool that the miner has extended\<close>

lemma ten_distribute:
  obtains pl where
    "distribute_rewards example_externals example_chance ten_params MINING_ADDRESS = Some (Inr pl)"
    and "length pl = 13" and "well_keyed pl"
proof -
  let ?pl = "mp_TXPOOL ten_params"
  have k: "1 \<le> mp_percent_tx_rewarded ten_params * real (length ?pl)"
    unfolding ten_params_facts(3) by simp
  have c: "nat \<lfloor>mp_percent_tx_rewarded ten_params * real (length ?pl)\<rfloor> + 1
      \<le> card ((\<lambda>q. draws example_chance q mod length ?pl) ` {..<2})"
    unfolding ten_params_facts(3) unfolding ten_params_facts(1) two_draws by simp
  from many_rewards_appended [OF ten_params_facts(2) k c, of example_externals MINING_ADDRESS]
  obtain chosen where l: "length chosen =
        nat \<lfloor>mp_percent_tx_rewarded ten_params * real (length ?pl)\<rfloor> + 1"
    and d: "distribute_rewards example_externals example_chance ten_params MINING_ADDRESS =
      Some (Inr (?pl @ reward_entries example_externals (times example_chance)
                         (mp_reward_for_tx ten_params) ?pl (length ?pl) chosen
                 @ [payment_entry example_externals (times example_chance) MINING_ADDRESS
                      (real (length ?pl) * mp_mining_fees ten_params)
                      (length ?pl + length chosen)]))"
    by blast
  let ?rw = "reward_entries example_externals (times example_chance)
               (mp_reward_for_tx ten_params) ?pl (length ?pl) chosen"
  let ?pay = "payment_entry example_externals (times example_chance) MINING_ADDRESS
                (real (length ?pl) * mp_mining_fees ten_params) (length ?pl + length chosen)"
  from l have l2: "length chosen = 2" unfolding ten_params_facts(3) by simp
  have w: "well_keyed (?pl @ ?rw)" by (rule well_keyed_rewards [OF ten_params_facts(2)])
  have "well_keyed ((?pl @ ?rw) @ [(str_nat (length (?pl @ ?rw)), snd ?pay)])"
    by (rule well_keyed_snoc [OF w])
  then have w2: "well_keyed (?pl @ ?rw @ [?pay])" by (simp add: payment_entry_def)
  have "length (?pl @ ?rw @ [?pay]) = 13" by (simp add: l2 ten_params_facts(1))
  with d w2 that show ?thesis by blast
qed

lemma keys_13: "concat (map str_nat [0..<13]) = ''0123456789101112''"
  by code_simp

lemma ten_challenge:
  assumes "length pl = 13" and "well_keyed pl"
  shows "challenge_str example_externals ten_params pl = ''1012345678910111200f00d2110''"
proof -
  from assms have "concat (map fst pl) = ''0123456789101112''"
    by (simp only: well_keyed_def keys_13)
  then show ?thesis
    by (simp add: challenge_str_def ten_params_def example_externals_def str_nat_digit
        digit_char_def str_int_def)
qed

lemma ten_accepts:
  "\<not> accepts example_externals ''1012345678910111200f00d2110'' 2 0"
  "\<not> accepts example_externals ''1012345678910111200f00d2110'' 2 1"
  "accepts example_externals ''1012345678910111200f00d2110'' 2 2"
  by (simp_all add: example_externals_def accepts_def hex_digit_small hex_digit_def
      example_digest_def n_zeroes_def)

lemma ten_pow:
  "pow_search example_externals ''1012345678910111200f00d2110'' 2 0 = Some (''00f00d'', 2)"
proof -
  have "\<forall>k<2. \<not> accepts example_externals ''1012345678910111200f00d2110'' 2 k"
  proof (intro allI impI)
    fix k :: nat
    assume "k < 2"
    then have "k = 0 \<or> k = 1" by auto
    then show "\<not> accepts example_externals ''1012345678910111200f00d2110'' 2 k"
      using ten_accepts(1,2) by auto
  qed
  from pow_search_first [OF ten_accepts(3) this] show ?thesis
    by (simp add: example_externals_def example_digest_def hex_digit_small hex_digit_def)
qed

lemma ten_mine:
  obtains pl where
    "mine example_externals example_chance ten_params MINING_ADDRESS =
       Some (Inr (''00f00d'', ''2'', pl))"
    and "length pl = 13"
proof -
  from ten_distribute obtain pl where
    d: "distribute_rewards example_externals example_chance ten_params MINING_ADDRESS
          = Some (Inr pl)"
    and l: "length pl = 13" and w: "well_keyed pl"
    by blast
  have diff: "mp_difficulty ten_params = 2" by (simp add: ten_params_def)
  have "mine example_externals example_chance ten_params MINING_ADDRESS =
       Some (Inr (''00f00d'', ''2'', pl))"
    by (simp add: mine_def d ten_challenge [OF l w] diff ten_pow hex_digit_small hex_digit_def)
  with l that show ?thesis by blast
qed

lemma ten_mined:
  "mine_block example_externals example_chance ''t4'' example_ten =
     Some (Inr (block_created, example_ten_mined))"
  and ten_mined_sealed: "length (transactions (last (chain example_ten_mined))) = 13"
  and ten_mined_fee: "mining_fees example_ten_mined = 1"
  and ten_mined_reward: "reward_for_transaction example_ten_mined = 3 / 2"
proof -
  from ten_mine obtain pl where
    m: "mine example_externals example_chance ten_params MINING_ADDRESS =
       Some (Inr (''00f00d'', ''2'', pl))"
    and l: "length pl = 13"
    by blast
  let ?s = "example_ten\<lparr> TXPOOL := pl \<rparr>"
  from example_ten_inv have c: "chain example_ten = chain example_genesis"
    and i: "index example_ten = 1" and n: "transaction_number example_ten = 10"
    by (simp_all add: admitted_inv_def)
  have "previous_hash_of example_externals ?s = Inr (PyStr ''00f00d'')"
    using ten_params_ok
    by (auto simp: previous_hash_of_def get_latest_block_metaparams_def i ten_params_def
        split: sum.splits)
  from create_block_succeeds [OF this] obtain r
    where r: "create_block example_externals ''00f00d'' ''2'' ''t4'' ?s = Inr r"
    by blast
  have mb: "mine_block example_externals example_chance ''t4'' example_ten =
     Some (Inr (block_created, snd r))"
    by (simp add: mine_block_def ten_params_ok m Let_def r)
  then have e: "example_ten_mined = snd r" by (simp add: example_ten_mined_def)
  from mb e show "mine_block example_externals example_chance ''t4'' example_ten =
     Some (Inr (block_created, example_ten_mined))"
    by simp
  have il: "index ?s = length (chain ?s)" by (simp add: i c example_genesis_chain)
  from create_block_chain(2,5) [OF r il]
  show "length (transactions (last (chain example_ten_mined))) = 13"
    by (simp add: e l)
  from r obtain ph where
    f: "mining_fees (snd r) = fst (fst (set_metaparams ?s))"
    and t: "reward_for_transaction (snd r) = snd (fst (set_metaparams ?s))"
    by (rule create_block_Inr)
  from f show "mining_fees example_ten_mined = 1"
    by (simp add: e set_metaparams_def Let_def n)
  from t show "reward_for_transaction example_ten_mined = 3 / 2"
    by (simp add: e set_metaparams_def Let_def n)
qed

text \<open>
  Claim C3. On the example ledger, ten transactions are admitted and the block is then
  mined: the miner returns the pool with two rewards and its payment, and the block that
  is sealed holds 13 transactions. The counter that \<open>set_metaparams\<close> reads still
  says 10, so the fee stays 1 and the reward 1.5, where \<open>R = 13\<close> gives
  \<open>exp(0.3)\<close> and 1.5 times that.
\<close>

theorem fee_from_stale_counter:
  "mine_block example_externals example_chance ''t4'' example_ten =
     Some (Inr (block_created, example_ten_mined))
   \<and> transaction_number example_ten = 10
   \<and> length (transactions (last (chain example_ten_mined))) = 13
   \<and> mining_fees example_ten_mined = 1
   \<and> reward_for_transaction example_ten_mined = 3 / 2
   \<and> mining_fees example_ten_mined \<noteq> exp ((13 - 10) / 10)
   \<and> reward_for_transaction example_ten_mined \<noteq> 1.5 * exp ((13 - 10) / 10)"
proof -
  from example_ten_inv have n: "transaction_number example_ten = 10"
    by (simp add: admitted_inv_def)
  have "exp ((13 - 10) / 10 :: real) \<noteq> 1" by (simp add: exp_eq_one_iff)
  with n show ?thesis
    by (simp add: ten_mined ten_mined_sealed ten_mined_fee ten_mined_reward)
qed

end
